theory Spec2Isabelle
  imports Main "HOL-Library.Word" "HOL-Library.AList" "HOL-Library.Sublist"
begin

section \<open>JavaScript values used by both programs\<close>

text \<open>
  A JavaScript string is a sequence of UTF-16 code units; \<open>length\<close>, \<open>substring\<close> and the
  regular expression classes all work on code units.  \<open>js\<close> turns an ASCII literal of the
  source into such a sequence.
\<close>

type_synonym jschar = "16 word"
type_synonym jsstring = "jschar list"

definition js :: "string \<Rightarrow> jsstring" where
  "js s = map of_char s"

text \<open>
  The code units matched by the regular expression class \<open>\s\<close> and stripped by
  \<open>String.prototype.trim\<close>: the ECMAScript WhiteSpace and LineTerminator productions
  (TAB, LF, VT, FF, CR, SP, NBSP, the Unicode space separators, LS, PS and ZWNBSP).
\<close>

definition isWhiteSpace :: "jschar \<Rightarrow> bool" where
  "isWhiteSpace c \<longleftrightarrow>
     c \<in> set [0x09, 0x0A, 0x0B, 0x0C, 0x0D, 0x20, 0xA0, 0x1680,
               0x2028, 0x2029, 0x202F, 0x205F, 0x3000, 0xFEFF]
     \<or> (0x2000 \<le> c \<and> c \<le> 0x200A)"

text \<open>\<open>s.trim()\<close>: white space removed from both ends.\<close>

definition trim :: "jsstring \<Rightarrow> jsstring" where
  "trim s = rev (dropWhile isWhiteSpace (rev (dropWhile isWhiteSpace s)))"

text \<open>
  \<open>s.replace(/\s+/g, ' ')\<close>: scanning from the left, every maximal run of white space is
  replaced by one space (U+0020).
\<close>

function replaceWhiteSpaceRuns :: "jsstring \<Rightarrow> jsstring" where
  "replaceWhiteSpaceRuns [] = []"
| "replaceWhiteSpaceRuns (c # cs) =
     (if isWhiteSpace c then 0x20 # replaceWhiteSpaceRuns (dropWhile isWhiteSpace cs)
      else c # replaceWhiteSpaceRuns cs)"
  by pat_completeness auto
termination
  by (relation "measure length") (auto simp: length_dropWhile_le less_Suc_eq_le)

text \<open>
  \<open>s.substring(start, end)\<close> on non-negative integers: the two indices are swapped when
  \<open>start > end\<close>, and both are clamped to the length of the string.
\<close>

definition substring :: "jsstring \<Rightarrow> nat \<Rightarrow> nat \<Rightarrow> jsstring" where
  "substring s start end = take (max start end - min start end) (drop (min start end) s)"

text \<open>
  \<open>s.toLowerCase()\<close> on code units below U+0100, where it is exact: \<open>A\<close> to \<open>Z\<close> and
  the Latin-1 capitals U+00C0 to U+00DE (the multiplication sign U+00D7 apart) are moved
  up by 0x20, every other code unit is kept.  The case mapping of letters from U+0100 on
  is not modelled: such code units are kept as they are.  The tag names the tool
  compares against are ASCII, and no letter outside ASCII is lower-cased to one of their
  letters.
\<close>

definition toLowerCase :: "jsstring \<Rightarrow> jsstring" where
  "toLowerCase s =
     map (\<lambda>c. if (0x41 \<le> c \<and> c \<le> 0x5A) \<or> (0xC0 \<le> c \<and> c \<le> 0xDE \<and> c \<noteq> 0xD7)
              then c + 0x20 else c) s"

text \<open>
  Values that come out of \<open>JSON.parse\<close> or \<open>response.json()\<close>, together with
  \<open>undefined\<close> (a missing property or argument).  An object is the list of its own
  properties.  Numbers are kept as integers: the programs only test them for being zero.
\<close>

datatype jsval =
    Undefined
  | Null
  | Bool bool
  | Num int
  | Str jsstring
  | Arr "jsval list"
  | Obj "(jsstring \<times> jsval) list"

text \<open>
  Exceptions.  \<open>TypeError\<close> is what the engine throws for a property read on \<open>null\<close> or
  \<open>undefined\<close>, a call of something that is not a function, and a \<open>for ... of\<close> over
  something that is not iterable; \<open>Failure m\<close> is an error with message \<open>m\<close> raised by
  the platform (file system, JSON parser, HTML parser, network).
\<close>

datatype jserror = TypeError | Failure jsstring


section \<open>The DOM snapshot tool (dom_parser.js)\<close>

subsection \<open>Data\<close>

text \<open>
  A DOM element as \<open>elementToTree\<close> reads it: \<open>tagName\<close>, the attribute list
  (\<open>name\<close>, \<open>value\<close>) in document order, the value of the \<open>textContent\<close> getter, and
  \<open>children\<close>, the child elements (text and comment nodes are not among them).
\<close>

datatype element =
  Element (tagName: jsstring)
          (attributes: "(jsstring \<times> jsstring) list")
          (textContent: jsstring)
          (children: "element list")

text \<open>
  The objects the tool builds: the \<open>elementInfo\<close> object of \<open>elementToTree\<close>, the
  sentinel \<open>{tagName, depthLimit: true}\<close> returned past the depth limit, and the
  \<open>{error}\<close> object \<open>parseDOM\<close> returns from its \<open>catch\<close>.
\<close>

datatype tree =
    ElementInfo jsstring "(jsstring \<times> jsstring) list" "tree list" jsstring nat
  | DepthLimit jsstring
  | ErrorObject jserror

text \<open>Property reads on these objects; \<open>None\<close> is \<open>undefined\<close>.\<close>

fun get_tagName :: "tree \<Rightarrow> jsstring option" where
  "get_tagName (ElementInfo t a cs txt n) = Some t"
| "get_tagName (DepthLimit t) = Some t"
| "get_tagName (ErrorObject e) = None"

fun get_children :: "tree \<Rightarrow> tree list option" where
  "get_children (ElementInfo t a cs txt n) = Some cs"
| "get_children (DepthLimit t) = None"
| "get_children (ErrorObject e) = None"

fun get_textContent :: "tree \<Rightarrow> jsstring option" where
  "get_textContent (ElementInfo t a cs txt n) = Some txt"
| "get_textContent (DepthLimit t) = None"
| "get_textContent (ErrorObject e) = None"

fun get_elementCount :: "tree \<Rightarrow> nat option" where
  "get_elementCount (ElementInfo t a cs txt n) = Some n"
| "get_elementCount (DepthLimit t) = None"
| "get_elementCount (ErrorObject e) = None"


subsection \<open>elementToTree\<close>

text \<open>
  The keys of an object that are array indices: the decimal numerals without a leading
  zero (\<open>0\<close> itself apart) of the numbers below \<open>2^32 - 1\<close>.
\<close>

definition indexValue :: "jsstring \<Rightarrow> nat" where
  "indexValue k = foldl (\<lambda>n c. 10 * n + (unat c - 48)) 0 k"

definition isArrayIndex :: "jsstring \<Rightarrow> bool" where
  "isArrayIndex k \<longleftrightarrow>
     k \<noteq> [] \<and> list_all (\<lambda>c. 0x30 \<le> c \<and> c \<le> 0x39) k
     \<and> (hd k \<noteq> 0x30 \<or> length k = 1) \<and> indexValue k < 4294967295"

text \<open>
  \<open>elementInfo.attributes[attr.name] = attr.value\<close> for each attribute in turn.  An
  assignment to the key \<open>__proto__\<close> with a string value goes to the setter inherited from
  \<open>Object.prototype\<close>, which ignores a value that is neither an object nor \<open>null\<close>, so
  it creates no property.  The resulting object is given as the list of its properties
  in the order in which they are enumerated (and written by \<open>JSON.stringify\<close>): the
  array-index keys in ascending numeric order, then the other keys in the order of their
  creation.
\<close>

definition collectAttributes :: "(jsstring \<times> jsstring) list \<Rightarrow> (jsstring \<times> jsstring) list" where
  "collectAttributes attrs =
     (let created =
            foldl (\<lambda>obj (name, val).
                     if name = js ''__proto__'' then obj else AList.update name val obj)
                  [] attrs
      in sort_key (\<lambda>p. indexValue (fst p)) (filter (\<lambda>p. isArrayIndex (fst p)) created)
           @ filter (\<lambda>p. \<not> isArrayIndex (fst p)) created)"

text \<open>\<open>childTree.elementCount || 0\<close>\<close>

definition elementCountOrZero :: "tree \<Rightarrow> nat" where
  "elementCountOrZero t = (case get_elementCount t of Some n \<Rightarrow> n | None \<Rightarrow> 0)"

text \<open>
  The text of a node: empty when \<open>element.textContent\<close> is falsy (the empty string),
  otherwise \<open>element.textContent.trim().replace(/\s+/g, ' ').substring(0, 200)\<close>.
\<close>

definition nodeText :: "jsstring \<Rightarrow> jsstring" where
  "nodeText t = (if t \<noteq> [] then substring (replaceWhiteSpaceRuns (trim t)) 0 200 else [])"

text \<open>
  \<open>elementToTree(element, depth)\<close>.  The loop over \<open>element.children\<close> pushes each child
  tree and adds \<open>1 + (childTree.elementCount || 0)\<close> to the running \<open>elementCount\<close>.
\<close>

fun elementToTree :: "element \<Rightarrow> nat \<Rightarrow> tree" where
  "elementToTree (Element tag attrs txt kids) depth =
     (if depth > 10 then
        DepthLimit (if tag \<noteq> [] then toLowerCase tag else js ''...'')
      else
        let childTrees = map (\<lambda>child. elementToTree child (depth + 1)) kids
        in ElementInfo (if tag \<noteq> [] then toLowerCase tag else [])
                       (collectAttributes attrs)
                       childTrees
                       (nodeText txt)
                       (foldl (\<lambda>count childTree. count + (1 + elementCountOrZero childTree))
                              0 childTrees))"

declare elementToTree.simps [simp del]

subsection \<open>countInteractiveElements\<close>

definition interactiveTags :: "jsstring list" where
  "interactiveTags =
     [js ''button'', js ''a'', js ''input'', js ''select'', js ''textarea'', js ''form'']"

text \<open>
  The loop \<open>for (let child of node.children) count += countInteractiveElements(child)\<close>
  over the results of the recursive calls, in order; the first call that throws ends it.
\<close>

fun addCounts :: "nat \<Rightarrow> (jserror + nat) list \<Rightarrow> jserror + nat" where
  "addCounts count [] = Inr count"
| "addCounts count (Inl err # rs) = Inl err"
| "addCounts count (Inr n # rs) = addCounts (count + n) rs"

text \<open>
  \<open>countInteractiveElements(node)\<close>.  \<open>interactiveTags.includes(node.tagName)\<close> is
  evaluated on every object (it is false for a missing \<open>tagName\<close>); then
  \<open>node.children\<close> is iterated.  The sentinel and the \<open>{error}\<close> object have no
  \<open>children\<close> property, and \<open>for ... of\<close> over \<open>undefined\<close> throws a TypeError.
\<close>

fun countInteractiveElements :: "tree \<Rightarrow> jserror + nat" where
  "countInteractiveElements (ElementInfo t a kids txt n) =
     addCounts (if t \<in> set interactiveTags then 1 else 0) (map countInteractiveElements kids)"
| "countInteractiveElements (DepthLimit t) = Inl TypeError"
| "countInteractiveElements (ErrorObject e) = Inl TypeError"

subsection \<open>parseDOM, analyzeDOM and the entry point\<close>

text \<open>
  What the tool takes from its platform: \<open>fs.readFileSync(path, 'utf8')\<close> (the text of
  the file or an exception), \<open>new JSDOM(html).window.document.documentElement\<close> (the
  root element or an exception), \<open>JSON.parse\<close>, and whether
  \<open>fs.writeFileSync('dom_analysis.json', ...)\<close> throws.
\<close>

record platform =
  readFileSync :: "jsval \<Rightarrow> jserror + jsstring"
  JSDOM :: "jsstring \<Rightarrow> jserror + element"
  JSON_parse :: "jsstring \<Rightarrow> jserror + jsval"
  writeFileSync :: "jserror option"

text \<open>
  \<open>parseDOM(htmlPath)\<close>: any exception of the \<open>try\<close> block becomes the
  \<open>{error: error.message}\<close> object (the exception stands for its message).
\<close>

definition parseDOM :: "platform \<Rightarrow> jsval \<Rightarrow> tree" where
  "parseDOM pf htmlPath =
     (case readFileSync pf htmlPath of
        Inl err \<Rightarrow> ErrorObject err
      | Inr html \<Rightarrow>
          (case JSDOM pf html of
             Inl err \<Rightarrow> ErrorObject err
           | Inr documentElement \<Rightarrow> elementToTree documentElement 0))"

record stats =
  totalElements :: nat
  interactiveElements :: nat

record summary = stats +
  totalPages :: nat
  elementsByType :: "(jsstring \<times> nat) list"

datatype result =
    Analysis jsval tree stats
  | FileError jsval jserror

record report =
  summary :: summary
  results :: "result list"

text \<open>
  The body of the \<open>forEach\<close> callback, on the summary and the results so far.  The
  \<open>analysis\<close> object is built first: when \<open>countInteractiveElements\<close> throws, nothing
  has been pushed and the summary is untouched, and the \<open>catch\<close> pushes
  \<open>{file, error}\<close>.
\<close>

definition analyzeFile :: "platform \<Rightarrow> summary \<times> result list \<Rightarrow> jsval \<Rightarrow> summary \<times> result list" where
  "analyzeFile pf acc filePath =
     (let domTree = parseDOM pf filePath
      in case countInteractiveElements domTree of
           Inl err \<Rightarrow> (fst acc, snd acc @ [FileError filePath err])
         | Inr n \<Rightarrow>
             (let st = \<lparr>totalElements = elementCountOrZero domTree, interactiveElements = n\<rparr>
              in ((fst acc)\<lparr>totalElements := totalElements (fst acc) + totalElements st,
                            interactiveElements := interactiveElements (fst acc) + interactiveElements st\<rparr>,
                  snd acc @ [Analysis filePath domTree st])))"

text \<open>The \<open>summary\<close> object as \<open>analyzeDOM\<close> creates it, for \<open>n\<close> input files.\<close>

definition emptySummary :: "nat \<Rightarrow> summary" where
  "emptySummary n =
     \<lparr>totalElements = 0, interactiveElements = 0, totalPages = n, elementsByType = []\<rparr>"

text \<open>
  \<open>analyzeDOM(htmlFiles)\<close> on whatever \<open>JSON.parse\<close> returned.  Only an array has
  \<open>forEach\<close>: on \<open>null\<close> the read of \<open>htmlFiles.length\<close> throws, on any other value
  the call of \<open>htmlFiles.forEach\<close> does.  (The \<open>analyzedAt\<close> time stamp of the report
  is left out.)
\<close>

definition analyzeDOM :: "platform \<Rightarrow> jsval \<Rightarrow> jserror + report" where
  "analyzeDOM pf htmlFiles =
     (case htmlFiles of
        Arr files \<Rightarrow>
          (let final = foldl (analyzeFile pf) (emptySummary (length files), []) files
           in Inr \<lparr>summary = fst final, results = snd final\<rparr>)
      | _ \<Rightarrow> Inl TypeError)"

text \<open>
  The entry point.  \<open>Completed\<close>: the report was written and the success line with
  \<open>filesAnalyzed\<close> printed to standard output (exit code 0).  \<open>Exited code err\<close>: the
  \<open>catch\<close> printed the JSON line \<open>{status: 'error', error: err.message}\<close> to standard
  error and called \<open>process.exit(code)\<close>.
\<close>

datatype run =
    Completed report nat
  | Exited nat jserror

definition main :: "platform \<Rightarrow> jsval \<Rightarrow> run" where
  "main pf tempFile =
     (case readFileSync pf tempFile of
        Inl err \<Rightarrow> Exited 1 err
      | Inr content \<Rightarrow>
          (case JSON_parse pf content of
             Inl err \<Rightarrow> Exited 1 err
           | Inr htmlFiles \<Rightarrow>
               (case analyzeDOM pf htmlFiles of
                  Inl err \<Rightarrow> Exited 1 err
                | Inr analysisResult \<Rightarrow>
                    (case writeFileSync pf of
                       Some err \<Rightarrow> Exited 1 err
                     | None \<Rightarrow>
                         Completed analysisResult
                           (case htmlFiles of Arr files \<Rightarrow> length files | _ \<Rightarrow> 0)))))"

subsection \<open>Reference notions\<close>

text \<open>Reference notions of the element tree, used to state what the tool computes.\<close>

text \<open>All elements strictly below an element.\<close>

fun descendants :: "element \<Rightarrow> nat" where
  "descendants (Element tag attrs txt kids) = sum_list (map (\<lambda>c. 1 + descendants c) kids)"

text \<open>The elements strictly below an element and at most \<open>k\<close> levels below it.\<close>

fun descendantsWithin :: "nat \<Rightarrow> element \<Rightarrow> nat" where
  "descendantsWithin 0 e = 0"
| "descendantsWithin (Suc k) (Element tag attrs txt kids) =
     sum_list (map (\<lambda>c. 1 + descendantsWithin k c) kids)"

text \<open>The elements of a document, its root included, whose lower-cased tag name is interactive.\<close>

fun interactiveInDocument :: "element \<Rightarrow> nat" where
  "interactiveInDocument (Element tag attrs txt kids) =
     (if toLowerCase tag \<in> set interactiveTags then 1 else 0)
       + sum_list (map interactiveInDocument kids)"

text \<open>
  What the \<open>forEach\<close> callback records for one file, written without the accumulator.
\<close>

definition fileResult :: "platform \<Rightarrow> jsval \<Rightarrow> result" where
  "fileResult pf filePath =
     (case countInteractiveElements (parseDOM pf filePath) of
        Inl err \<Rightarrow> FileError filePath err
      | Inr n \<Rightarrow>
          Analysis filePath (parseDOM pf filePath)
            \<lparr>totalElements = elementCountOrZero (parseDOM pf filePath), interactiveElements = n\<rparr>)"

text \<open>The number of levels below an element (0 for an element without child elements).\<close>

fun height :: "element \<Rightarrow> nat" where
  "height (Element tag attrs txt kids) = foldr max (map (\<lambda>c. 1 + height c) kids) 0"

text \<open>
  White space in a string is single-spaced: every white-space code unit is U+0020 and is
  not followed by another white-space code unit.
\<close>

fun singleSpaced :: "jsstring \<Rightarrow> bool" where
  "singleSpaced [] = True"
| "singleSpaced [c] = (isWhiteSpace c \<longrightarrow> c = 0x20)"
| "singleSpaced (c # d # cs) =
     ((isWhiteSpace c \<longrightarrow> c = 0x20 \<and> \<not> isWhiteSpace d) \<and> singleSpaced (d # cs))"

subsection \<open>Concrete documents\<close>

text \<open>A chain of \<open>n\<close> nested \<open>DIV\<close> elements around an element.\<close>

fun nest :: "nat \<Rightarrow> element \<Rightarrow> element" where
  "nest 0 e = e"
| "nest (Suc n) e = Element (js ''DIV'') [] (textContent e) [nest n e]"

text \<open>
  The document of \<open><html><body><button>x</button></body></html>\<close>; the HTML parser
  supplies the \<open>head\<close> element.
\<close>

definition exampleDocument :: element where
  "exampleDocument =
     Element (js ''HTML'') [] (js ''x'')
       [Element (js ''HEAD'') [] [] [],
        Element (js ''BODY'') [] (js ''x'') [Element (js ''BUTTON'') [] (js ''x'') []]]"

text \<open>
  A document with \<open>html\<close> at depth 0, \<open>body\<close> at depth 1, ten nested \<open>div\<close>
  elements at depths 2 to 11 and a \<open>button\<close> at depth 12.
\<close>

definition deepDocument :: element where
  "deepDocument =
     Element (js ''HTML'') [] (js ''x'')
       [Element (js ''HEAD'') [] [] [],
        Element (js ''BODY'') [] (js ''x'') [nest 10 (Element (js ''BUTTON'') [] (js ''x'') [])]]"

text \<open>
  A document that just reaches the depth limit: \<open>html\<close> at depth 0, \<open>body\<close> at depth 1,
  nine nested \<open>div\<close> elements at depths 2 to 10 and a \<open>button\<close> at depth 11.
\<close>

definition limitDocument :: element where
  "limitDocument =
     Element (js ''HTML'') [] (js ''x'')
       [Element (js ''HEAD'') [] [] [],
        Element (js ''BODY'') [] (js ''x'') [nest 9 (Element (js ''BUTTON'') [] (js ''x'') [])]]"

text \<open>
  A platform for concrete runs.  Four HTML files exist: \<open>a.html\<close> holds the example
  document, \<open>deep.html\<close> the deep one, \<open>limit.html\<close> the one at the depth limit.  \<open>list.json\<close> holds the array of four paths
  \<open>a.html\<close>, \<open>deep.html\<close>, \<open>missing.html\<close>, \<open>a.html\<close>; \<open>bad.json\<close> is not
  JSON; \<open>object.json\<close> holds \<open>{}\<close>.  Every other path cannot be read.
\<close>

definition examplePlatform :: platform where
  "examplePlatform =
     \<lparr>readFileSync = (\<lambda>path.
          if path = Str (js ''a.html'') then Inr (js ''<html><body><button>x</button></body></html>'')
          else if path = Str (js ''deep.html'') then Inr (js ''<html><body><div><div>...'')
          else if path = Str (js ''limit.html'') then Inr (js ''<html><body><div>...'')
          else if path = Str (js ''list.json'') then Inr (js ''[...]'')
          else if path = Str (js ''bad.json'') then Inr (js ''not json'')
          else if path = Str (js ''object.json'') then Inr (js ''{}'')
          else Inl (Failure (js ''ENOENT''))),
      JSDOM = (\<lambda>html.
          if html = js ''<html><body><div><div>...'' then Inr deepDocument
          else if html = js ''<html><body><div>...'' then Inr limitDocument
          else Inr exampleDocument),
      JSON_parse = (\<lambda>content.
          if content = js ''[...]''
          then Inr (Arr [Str (js ''a.html''), Str (js ''deep.html''),
                         Str (js ''missing.html''), Str (js ''a.html'')])
          else if content = js ''{}'' then Inr (Obj [])
          else Inl (Failure (js ''Unexpected token''))),
      writeFileSync = None\<rparr>"


section \<open>The assistant widget (class AIAssistantWidget)\<close>

subsection \<open>Operations on JavaScript values\<close>

text \<open>The truth value of a value in a condition, \<open>||\<close> or \<open>!\<close>.\<close>

fun truthy :: "jsval \<Rightarrow> bool" where
  "truthy Undefined = False"
| "truthy Null = False"
| "truthy (Bool b) = b"
| "truthy (Num n) = (n \<noteq> 0)"
| "truthy (Str s) = (s \<noteq> [])"
| "truthy (Arr xs) = True"
| "truthy (Obj ps) = True"

text \<open>\<open>null\<close> and \<open>undefined\<close>: a property read on them throws a TypeError.\<close>

fun nullish :: "jsval \<Rightarrow> bool" where
  "nullish Undefined = True"
| "nullish Null = True"
| "nullish v = False"

text \<open>
  \<open>v.name\<close> for a value that is neither \<open>null\<close> nor \<open>undefined\<close>, for the property
  names the widget reads (none of them is a built-in property of strings, arrays,
  numbers or booleans): the own property of an object, \<open>undefined\<close> otherwise.
\<close>

fun getProp :: "jsval \<Rightarrow> jsstring \<Rightarrow> jsval" where
  "getProp (Obj ps) name = (case map_of ps name of Some v \<Rightarrow> v | None \<Rightarrow> Undefined)"
| "getProp v name = Undefined"

text \<open>\<open>a || b\<close>\<close>

definition orElse :: "jsval \<Rightarrow> jsval \<Rightarrow> jsval" where
  "orElse a b = (if truthy a then a else b)"

text \<open>\<open>v.length\<close> for a value that is neither \<open>null\<close> nor \<open>undefined\<close>.\<close>

fun lengthOf :: "jsval \<Rightarrow> jsval" where
  "lengthOf (Arr xs) = Num (int (length xs))"
| "lengthOf (Str s) = Num (int (length s))"
| "lengthOf v = getProp v (js ''length'')"

fun isString :: "jsval \<Rightarrow> bool" where
  "isString (Str s) = True"
| "isString v = False"

subsection \<open>State\<close>

datatype role = User | Assistant

text \<open>
  A chat message as \<open>addChatMessage\<close> builds it.  \<open>msg_id\<close> stands for the number
  \<open>Date.now() + Math.random()\<close> and \<open>timestamp\<close> for the formatted local time; both
  are read from the environment when the message is created.
\<close>

record message =
  msg_id :: nat
  role :: role
  content :: jsval
  timestamp :: jsstring
  instructionData :: jsval

type_synonym stamp = "nat \<times> jsstring"

text \<open>
  \<open>this.state\<close>.  \<open>popularInstructions\<close> is not among the initial properties, so it
  is \<open>undefined\<close> until \<open>loadPopularInstructions\<close> stores it.
\<close>

record state =
  isVisible :: bool
  availableTasks :: jsval
  popularInstructions :: jsval
  isListening :: bool
  chatMessages :: "message list"
  currentChatMessage :: jsstring
  activeTab :: jsstring
  isWaitingForResponse :: bool
  isMinimized :: bool
  hasUnreadMessages :: bool

definition initialState :: state where
  "initialState =
     \<lparr>isVisible = False, availableTasks = Arr [], popularInstructions = Undefined,
      isListening = False, chatMessages = [], currentChatMessage = [],
      activeTab = js ''tasks'', isWaitingForResponse = False, isMinimized = False,
      hasUnreadMessages = False\<rparr>"

text \<open>
  What an operation does besides changing the state: the \<open>console.error\<close> calls of the
  \<open>catch\<close> blocks (one constructor argument per call site) and the \<open>fetch\<close> requests,
  with method, path and the request body without its page context.
\<close>

datatype log_site =
    InitError | PopularError | SearchError | ChatError
  | InstructionError | VoiceError | ExportError

datatype effect =
    ConsoleError log_site jserror
  | Fetch jsstring jsstring jsval

text \<open>
  The result of running an operation up to its next \<open>await\<close> or to its end: the state,
  the effects in order, and the exception that left the operation, if any (for an
  \<open>async\<close> method, the rejection of the promise its caller holds).
\<close>

record reaction =
  after :: state
  effects :: "effect list"
  thrown :: "jserror option"

subsection \<open>Texts\<close>

text \<open>The message of the \<open>catch\<close> in \<open>sendChatMessage\<close> (Russian: an apology, an error occurred, try again).\<close>

definition chatApology :: jsstring where
  "chatApology = map of_nat
     [1048, 1079, 1074, 1080, 1085, 1080, 1090, 1077, 44, 32, 1087, 1088, 1086, 1080,
       1079, 1086, 1096, 1083, 1072, 32, 1086, 1096, 1080, 1073, 1082, 1072, 46, 32,
       1055, 1086, 1087, 1088, 1086, 1073, 1091, 1081, 1090, 1077, 32, 1077, 1097, 1077,
       32, 1088, 1072, 1079, 46]"

text \<open>The message of the \<open>catch\<close> in \<open>showInstruction\<close> (Russian: an apology, the instruction could not be fetched).\<close>

definition instructionApology :: jsstring where
  "instructionApology = map of_nat
     [1048, 1079, 1074, 1080, 1085, 1080, 1090, 1077, 44, 32, 1085, 1077, 32, 1091,
       1076, 1072, 1083, 1086, 1089, 1100, 32, 1087, 1086, 1083, 1091, 1095, 1080, 1090,
       1100, 32, 1080, 1085, 1089, 1090, 1088, 1091, 1082, 1094, 1080, 1102, 46]"

text \<open>The message of the \<open>catch\<close> in \<open>processVoiceQuery\<close> (Russian: an apology, an error occurred while processing the voice query).\<close>

definition voiceApology :: jsstring where
  "voiceApology = map of_nat
     [1048, 1079, 1074, 1080, 1085, 1080, 1090, 1077, 44, 32, 1087, 1088, 1086, 1080,
       1079, 1086, 1096, 1083, 1072, 32, 1086, 1096, 1080, 1073, 1082, 1072, 32, 1087,
       1088, 1080, 32, 1086, 1073, 1088, 1072, 1073, 1086, 1090, 1082, 1077, 32, 1075,
       1086, 1083, 1086, 1089, 1086, 1074, 1086, 1075, 1086, 32, 1079, 1072, 1087, 1088,
       1086, 1089, 1072, 46]"

text \<open>The text before the task name in the message of \<open>showInstruction\<close> (Russian: here is the instruction for the task, then a double quote).\<close>

definition instructionIntroPrefix :: jsstring where
  "instructionIntroPrefix = map of_nat
     [1042, 1086, 1090, 32, 1080, 1085, 1089, 1090, 1088, 1091, 1082, 1094, 1080, 1103,
       32, 1076, 1083, 1103, 32, 1079, 1072, 1076, 1072, 1095, 1080, 32, 34]"

text \<open>The text after the task name: a double quote and a colon.\<close>

definition instructionIntroSuffix :: jsstring where
  "instructionIntroSuffix = map of_nat
     [34, 58]"

text \<open>The message of \<open>loadInstruction\<close> (Russian: here is the instruction).\<close>

definition loadInstructionIntro :: jsstring where
  "loadInstructionIntro = map of_nat
     [1042, 1086, 1090, 32, 1080, 1085, 1089, 1090, 1088, 1091, 1082, 1094, 1080, 1103,
       58]"

text \<open>The four greetings \<open>addWelcomeMessage\<close> chooses from (Russian).\<close>

definition welcomeMessages :: "jsstring list" where
  "welcomeMessages =
     [map of_nat
       [1055, 1088, 1080, 1074, 1077, 1090, 33, 32, 1071, 32, 1074, 1072, 1096, 32, 65,
        73, 45, 1072, 1089, 1089, 1080, 1089, 1090, 1077, 1085, 1090, 46, 32, 1063, 1077,
        1084, 32, 1084, 1086, 1075, 1091, 32, 1087, 1086, 1084, 1086, 1095, 1100, 63],
      map of_nat
       [1047, 1076, 1088, 1072, 1074, 1089, 1090, 1074, 1091, 1081, 1090, 1077, 33, 32,
        1043, 1086, 1090, 1086, 1074, 32, 1087, 1086, 1084, 1086, 1095, 1100, 32, 1089,
        32, 1079, 1072, 1076, 1072, 1095, 1072, 1084, 1080, 32, 1085, 1072, 32, 1101,
        1090, 1086, 1081, 32, 1089, 1090, 1088, 1072, 1085, 1080, 1094, 1077, 46],
      map of_nat
       [1055, 1088, 1080, 1074, 1077, 1090, 1089, 1090, 1074, 1091, 1102, 33, 32, 1047,
        1072, 1076, 1072, 1074, 1072, 1081, 1090, 1077, 32, 1074, 1086, 1087, 1088, 1086,
        1089, 1099, 32, 1080, 1083, 1080, 32, 1080, 1097, 1080, 1090, 1077, 32, 1080,
        1085, 1089, 1090, 1088, 1091, 1082, 1094, 1080, 1080, 46],
      map of_nat
       [1044, 1086, 1073, 1088, 1099, 1081, 32, 1076, 1077, 1085, 1100, 33, 32, 1071, 32,
        1079, 1076, 1077, 1089, 1100, 44, 32, 1095, 1090, 1086, 1073, 1099, 32, 1087,
        1086, 1084, 1086, 1095, 1100, 32, 1074, 1072, 1084, 32, 1088, 1072, 1079, 1086,
        1073, 1088, 1072, 1090, 1100, 1089, 1103, 32, 1089, 32, 1080, 1085, 1090, 1077,
        1088, 1092, 1077, 1081, 1089, 1086, 1084, 46]]"

subsection \<open>Rendering\<close>

text \<open>
  Rendering writes to the page only; what matters here is whether it throws.  The
  conversion of a value to a string inside a template is taken not to throw.

  \<open>escapeHtml(unsafe)\<close> calls \<open>unsafe.replace\<close>, which exists on strings only: any other
  argument gives a TypeError.
\<close>

definition escapeHtml :: "jsval \<Rightarrow> jserror option" where
  "escapeHtml unsafe = (if isString unsafe then None else Some TypeError)"

text \<open>
  One message in \<open>renderChatMessages\<close>.  A user message escapes its content.  Any other
  message escapes its content and, when \<open>msg.instructionData\<close> is truthy, maps over
  \<open>msg.instructionData.steps\<close> (which must be an array) escaping every step.
\<close>

definition renderMessage :: "message \<Rightarrow> jserror option" where
  "renderMessage msg =
     (if role msg = User then escapeHtml (content msg)
      else if truthy (instructionData msg) then
        (case escapeHtml (content msg) of
           Some err \<Rightarrow> Some err
         | None \<Rightarrow>
             (case getProp (instructionData msg) (js ''steps'') of
                Arr steps \<Rightarrow> (if list_all isString steps then None else Some TypeError)
              | _ \<Rightarrow> Some TypeError))
      else escapeHtml (content msg))"

text \<open>
  \<open>renderChatMessages()\<close>: the empty list shows the placeholder; otherwise every message
  is rendered in order and the first exception ends the call.
\<close>

fun renderAll :: "message list \<Rightarrow> jserror option" where
  "renderAll [] = None"
| "renderAll (msg # msgs) =
     (case renderMessage msg of Some err \<Rightarrow> Some err | None \<Rightarrow> renderAll msgs)"

definition renderChatMessages :: "state \<Rightarrow> jserror option" where
  "renderChatMessages s = renderAll (chatMessages s)"

text \<open>
  \<open>list.map(item => `...${item.field}...`)\<close> as the three card lists use it: the
  receiver must be an array, and the property reads in the template throw on a \<open>null\<close>
  item.
\<close>

definition renderCards :: "jsval \<Rightarrow> jserror option" where
  "renderCards v =
     (case v of
        Arr items \<Rightarrow> (if list_ex nullish items then Some TypeError else None)
      | _ \<Rightarrow> Some TypeError)"

definition renderAvailableTasks :: "state \<Rightarrow> jserror option" where
  "renderAvailableTasks s =
     (if nullish (availableTasks s) then Some TypeError
      else if lengthOf (availableTasks s) = Num 0 then None
      else renderCards (availableTasks s))"

text \<open>\<open>renderPopularInstructions()\<close> renders \<open>popularInstructions.slice(0, 5)\<close>.\<close>

definition renderPopularInstructions :: "state \<Rightarrow> jserror option" where
  "renderPopularInstructions s =
     (if nullish (popularInstructions s) then Some TypeError
      else if lengthOf (popularInstructions s) = Num 0 then None
      else (case popularInstructions s of
              Arr items \<Rightarrow> renderCards (Arr (take 5 items))
            | _ \<Rightarrow> Some TypeError))"

definition renderSearchResults :: "jsval \<Rightarrow> jserror option" where
  "renderSearchResults found =
     (if nullish found then Some TypeError
      else if lengthOf found = Num 0 then None
      else renderCards found)"

subsection \<open>Chat\<close>

text \<open>
  \<open>addChatMessage(role, content, instructionData = null)\<close>: the default applies when
  the third argument is missing or \<open>undefined\<close>.  The message is pushed and the unread
  flag set before \<open>renderChatMessages\<close> runs, so they stay when rendering throws.
\<close>

definition addChatMessage :: "stamp \<Rightarrow> role \<Rightarrow> jsval \<Rightarrow> jsval \<Rightarrow> state \<Rightarrow> state \<times> jserror option" where
  "addChatMessage now r c instr s =
     (let message = \<lparr>msg_id = fst now, role = r, content = c, timestamp = snd now,
                     instructionData = (if instr = Undefined then Null else instr)\<rparr>;
          s1 = s\<lparr>chatMessages := chatMessages s @ [message]\<rparr>;
          s2 = (if \<not> isVisible s1 \<and> r = Assistant then s1\<lparr>hasUnreadMessages := True\<rparr> else s1)
      in (s2, renderChatMessages s2))"

text \<open>
  \<open>sendChatMessage()\<close> up to its \<open>await fetch(...)\<close>.  When \<open>addChatMessage\<close> throws, the
  method ends there: the input is not cleared, the flag not set and nothing is sent.
\<close>

definition sendChatMessage :: "stamp \<Rightarrow> state \<Rightarrow> reaction" where
  "sendChatMessage now s =
     (let message = trim (currentChatMessage s)
      in if message = [] \<or> isWaitingForResponse s
         then \<lparr>after = s, effects = [], thrown = None\<rparr>
         else (case addChatMessage now User (Str message) Undefined s of
                 (s1, Some err) \<Rightarrow> \<lparr>after = s1, effects = [], thrown = Some err\<rparr>
               | (s1, None) \<Rightarrow>
                   \<lparr>after = s1\<lparr>currentChatMessage := [], isWaitingForResponse := True\<rparr>,
                    effects = [Fetch (js ''POST'') (js ''/api/chat'')
                                 (Obj [(js ''message'', Str message)])],
                    thrown = None\<rparr>))"

text \<open>
  The rest of \<open>sendChatMessage()\<close>, run when the request settles.  \<open>response\<close> is the
  outcome of \<open>await fetch(...)\<close> followed by \<open>await response.json()\<close>: the exception of
  a failed call, or the parsed body.  The \<open>try\<close> block reads \<open>data.type\<close> and adds the
  reply; the \<open>catch\<close> logs and adds the apology (an exception of that
  \<open>addChatMessage\<close> leaves the method); \<open>finally\<close> resets the flag in every case.
\<close>

definition sendChatMessage_response :: "jserror + jsval \<Rightarrow> stamp \<Rightarrow> stamp \<Rightarrow> state \<Rightarrow> reaction" where
  "sendChatMessage_response response now1 now2 s =
     (let tried =
            (case response of
               Inl err \<Rightarrow> (s, Some err)
             | Inr data \<Rightarrow>
                 if nullish data then (s, Some TypeError)
                 else if getProp data (js ''type'') = Str (js ''instruction'')
                 then addChatMessage now1 Assistant (getProp data (js ''message''))
                        (getProp data (js ''instruction_data'')) s
                 else addChatMessage now1 Assistant (getProp data (js ''message'')) Undefined s)
      in case snd tried of
           None \<Rightarrow>
             \<lparr>after = (fst tried)\<lparr>isWaitingForResponse := False\<rparr>, effects = [], thrown = None\<rparr>
         | Some err \<Rightarrow>
             (let caught = addChatMessage now2 Assistant (Str chatApology) Undefined (fst tried)
              in \<lparr>after = (fst caught)\<lparr>isWaitingForResponse := False\<rparr>,
                  effects = [ConsoleError ChatError err],
                  thrown = snd caught\<rparr>))"

text \<open>\<open>sendMessage(message)\<close>, the public method, for a string argument.\<close>

definition sendMessage :: "jsstring \<Rightarrow> stamp \<Rightarrow> state \<Rightarrow> reaction" where
  "sendMessage message now s = sendChatMessage now (s\<lparr>currentChatMessage := message\<rparr>)"

text \<open>\<open>addWelcomeMessage()\<close>; \<open>i\<close> is the index drawn with \<open>Math.random\<close>, below 4.\<close>

definition addWelcomeMessage :: "nat \<Rightarrow> stamp \<Rightarrow> state \<Rightarrow> reaction" where
  "addWelcomeMessage i now s =
     (case addChatMessage now Assistant (Str (welcomeMessages ! (i mod 4))) Undefined s of
        (s1, t) \<Rightarrow> \<lparr>after = s1, effects = [], thrown = t\<rparr>)"

subsection \<open>Panel and tabs\<close>

definition showPanel :: "state \<Rightarrow> state" where
  "showPanel s = s\<lparr>isVisible := True, hasUnreadMessages := False\<rparr>"

definition hidePanel :: "state \<Rightarrow> state" where
  "hidePanel s = s\<lparr>isVisible := False\<rparr>"

definition togglePanel :: "state \<Rightarrow> state" where
  "togglePanel s =
     (let s1 = (if isMinimized s then s\<lparr>isMinimized := False\<rparr> else s)
      in if isVisible s1 then hidePanel s1 else showPanel s1)"

definition toggleMinimize :: "state \<Rightarrow> state" where
  "toggleMinimize s = s\<lparr>isMinimized := \<not> isMinimized s\<rparr>"

definition switchTab :: "jsstring \<Rightarrow> state \<Rightarrow> state" where
  "switchTab tabName s = s\<lparr>activeTab := tabName\<rparr>"

subsection \<open>Tasks, search and instructions\<close>

text \<open>
  \<open>initializeWidget()\<close>: the request, and the rest of the \<open>try\<close> block when it settles.
  Everything is inside the \<open>try\<close>, and the \<open>catch\<close> only logs.
\<close>

definition initializeWidget :: "state \<Rightarrow> reaction" where
  "initializeWidget s =
     \<lparr>after = s, effects = [Fetch (js ''POST'') (js ''/api/get-help'') (Obj [])], thrown = None\<rparr>"

definition initializeWidget_response :: "jserror + jsval \<Rightarrow> state \<Rightarrow> reaction" where
  "initializeWidget_response response s =
     (case response of
        Inl err \<Rightarrow> \<lparr>after = s, effects = [ConsoleError InitError err], thrown = None\<rparr>
      | Inr tasks \<Rightarrow>
          if nullish tasks
          then \<lparr>after = s, effects = [ConsoleError InitError TypeError], thrown = None\<rparr>
          else (let s1 = s\<lparr>availableTasks := orElse (getProp tasks (js ''available_tasks'')) (Arr [])\<rparr>
                in case renderAvailableTasks s1 of
                     Some err \<Rightarrow> \<lparr>after = s1, effects = [ConsoleError InitError err], thrown = None\<rparr>
                   | None \<Rightarrow> \<lparr>after = s1, effects = [], thrown = None\<rparr>))"

definition loadPopularInstructions :: "state \<Rightarrow> reaction" where
  "loadPopularInstructions s =
     \<lparr>after = s, effects = [Fetch (js ''GET'') (js ''/api/popular-instructions'') Undefined],
      thrown = None\<rparr>"

definition loadPopularInstructions_response :: "jserror + jsval \<Rightarrow> state \<Rightarrow> reaction" where
  "loadPopularInstructions_response response s =
     (case response of
        Inl err \<Rightarrow> \<lparr>after = s, effects = [ConsoleError PopularError err], thrown = None\<rparr>
      | Inr data \<Rightarrow>
          if nullish data
          then \<lparr>after = s, effects = [ConsoleError PopularError TypeError], thrown = None\<rparr>
          else (let s1 = s\<lparr>popularInstructions :=
                             orElse (getProp data (js ''popular_instructions'')) (Arr [])\<rparr>
                in case renderPopularInstructions s1 of
                     Some err \<Rightarrow> \<lparr>after = s1, effects = [ConsoleError PopularError err], thrown = None\<rparr>
                   | None \<Rightarrow> \<lparr>after = s1, effects = [], thrown = None\<rparr>))"

text \<open>
  \<open>searchInstructions(query)\<close>.  For a blank query the two lists are rendered again,
  outside any \<open>try\<close>; otherwise the request is sent.
\<close>

definition searchInstructions :: "jsstring \<Rightarrow> state \<Rightarrow> reaction" where
  "searchInstructions query s =
     (if trim query = [] then
        (case renderAvailableTasks s of
           Some err \<Rightarrow> \<lparr>after = s, effects = [], thrown = Some err\<rparr>
         | None \<Rightarrow> \<lparr>after = s, effects = [], thrown = renderPopularInstructions s\<rparr>)
      else \<lparr>after = s,
            effects = [Fetch (js ''POST'') (js ''/api/search-instructions'')
                         (Obj [(js ''query'', Str query)])],
            thrown = None\<rparr>)"

definition searchInstructions_response :: "jserror + jsval \<Rightarrow> state \<Rightarrow> reaction" where
  "searchInstructions_response response s =
     (case response of
        Inl err \<Rightarrow> \<lparr>after = s, effects = [ConsoleError SearchError err], thrown = None\<rparr>
      | Inr data \<Rightarrow>
          if nullish data
          then \<lparr>after = s, effects = [ConsoleError SearchError TypeError], thrown = None\<rparr>
          else (case renderSearchResults (orElse (getProp data (js ''results'')) (Arr [])) of
                  Some err \<Rightarrow> \<lparr>after = s, effects = [ConsoleError SearchError err], thrown = None\<rparr>
                | None \<Rightarrow> \<lparr>after = s, effects = [], thrown = None\<rparr>))"

text \<open>
  \<open>showInstruction(taskId, taskName)\<close>: the request, and the rest when it settles.
  \<open>switchTab('chat')\<close> runs before \<open>data.steps\<close> is read.  The \<open>catch\<close> logs and adds an
  apology.
\<close>

definition showInstruction :: "jsstring \<Rightarrow> jsstring \<Rightarrow> state \<Rightarrow> reaction" where
  "showInstruction taskId taskName s =
     \<lparr>after = s,
      effects = [Fetch (js ''POST'') (js ''/api/get-instruction'')
                   (Obj [(js ''task_id'', Str taskId), (js ''user_query'', Str taskName)])],
      thrown = None\<rparr>"

definition showInstruction_response :: "jsstring \<Rightarrow> jserror + jsval \<Rightarrow> stamp \<Rightarrow> stamp \<Rightarrow> state \<Rightarrow> reaction" where
  "showInstruction_response taskName response now1 now2 s =
     (let tried =
            (case response of
               Inl err \<Rightarrow> (s, Some err)
             | Inr data \<Rightarrow>
                 if nullish data then (switchTab (js ''chat'') s, Some TypeError)
                 else addChatMessage now1 Assistant
                        (Str (instructionIntroPrefix @ taskName @ instructionIntroSuffix))
                        (Obj [(js ''steps'', orElse (getProp data (js ''steps'')) (Arr [])),
                              (js ''instruction_id'', getProp data (js ''instruction_id''))])
                        (switchTab (js ''chat'') s))
      in case snd tried of
           None \<Rightarrow> \<lparr>after = fst tried, effects = [], thrown = None\<rparr>
         | Some err \<Rightarrow>
             (let caught = addChatMessage now2 Assistant (Str instructionApology) Undefined (fst tried)
              in \<lparr>after = fst caught, effects = [ConsoleError InstructionError err],
                  thrown = snd caught\<rparr>))"

text \<open>\<open>loadInstruction(instruction)\<close>; there is no \<open>try\<close> around it.\<close>

definition loadInstruction :: "jsval \<Rightarrow> stamp \<Rightarrow> state \<Rightarrow> reaction" where
  "loadInstruction instruction now s =
     (if nullish instruction
      then \<lparr>after = switchTab (js ''chat'') s, effects = [], thrown = Some TypeError\<rparr>
      else (case addChatMessage now Assistant (Str loadInstructionIntro)
                   (Obj [(js ''steps'', orElse (getProp instruction (js ''steps'')) (Arr [])),
                         (js ''instruction_id'', getProp instruction (js ''id''))])
                   (switchTab (js ''chat'') s) of
              (s1, t) \<Rightarrow> \<lparr>after = s1, effects = [], thrown = t\<rparr>))"

subsection \<open>Voice input and export\<close>

text \<open>
  \<open>processVoiceQuery(text)\<close>: the request, and the rest when it settles.  The user
  message is added before \<open>data.source\<close> is read.
\<close>

definition processVoiceQuery :: "jsstring \<Rightarrow> state \<Rightarrow> reaction" where
  "processVoiceQuery t s =
     \<lparr>after = s,
      effects = [Fetch (js ''POST'') (js ''/api/process-voice'') (Obj [(js ''text'', Str t)])],
      thrown = None\<rparr>"

definition processVoiceQuery_response :: "jsstring \<Rightarrow> jserror + jsval \<Rightarrow> stamp \<Rightarrow> stamp \<Rightarrow> stamp \<Rightarrow> state \<Rightarrow> reaction" where
  "processVoiceQuery_response t response now1 now2 now3 s =
     (let tried =
            (case response of
               Inl err \<Rightarrow> (s, Some err)
             | Inr data \<Rightarrow>
                 (case addChatMessage now1 User (Str t) Undefined (switchTab (js ''chat'') s) of
                    (s1, Some err) \<Rightarrow> (s1, Some err)
                  | (s1, None) \<Rightarrow>
                      if nullish data then (s1, Some TypeError)
                      else if getProp data (js ''source'') \<in> set [Str (js ''existing''),
                                Str (js ''generated''), Str (js ''fallback'')]
                      then addChatMessage now2 Assistant (getProp data (js ''text''))
                             (Obj [(js ''steps'', getProp data (js ''steps'')),
                                   (js ''instruction_id'', getProp data (js ''instruction_id''))]) s1
                      else addChatMessage now2 Assistant (getProp data (js ''text'')) Undefined s1))
      in case snd tried of
           None \<Rightarrow> \<lparr>after = fst tried, effects = [], thrown = None\<rparr>
         | Some err \<Rightarrow>
             (let caught = addChatMessage now3 Assistant (Str voiceApology) Undefined (fst tried)
              in \<lparr>after = fst caught, effects = [ConsoleError VoiceError err],
                  thrown = snd caught\<rparr>))"

text \<open>
  \<open>startVoiceInput()\<close>; \<open>answer\<close> is what \<open>prompt\<close> returned (a string, or \<open>null\<close> when
  the dialog was cancelled).  \<open>processVoiceQuery\<close> is started without \<open>await\<close>, and the
  \<open>finally\<close> resets \<open>isListening\<close> at once.
\<close>

definition startVoiceInput :: "jsval \<Rightarrow> state \<Rightarrow> reaction" where
  "startVoiceInput answer s =
     (if isListening s then \<lparr>after = s, effects = [], thrown = None\<rparr>
      else (case answer of
              Str t \<Rightarrow>
                if t \<noteq> []
                then \<lparr>after = s\<lparr>isListening := False\<rparr>,
                      effects = effects (processVoiceQuery t (s\<lparr>isListening := True\<rparr>)),
                      thrown = None\<rparr>
                else \<lparr>after = s\<lparr>isListening := False\<rparr>, effects = [], thrown = None\<rparr>
            | _ \<Rightarrow> \<lparr>after = s\<lparr>isListening := False\<rparr>, effects = [], thrown = None\<rparr>))"

text \<open>
  \<open>exportInstruction(format, instructionId = null)\<close>, called with strings from the
  rendered buttons (\<open>None\<close> is a missing id): nothing happens for a falsy id.  When the
  request settles, \<open>response\<close> is the exception of the failed call (or of
  \<open>response.blob()\<close>) or the \<open>ok\<close> flag; the download itself touches the page only.
\<close>

definition exportInstruction :: "jsstring \<Rightarrow> jsstring option \<Rightarrow> state \<Rightarrow> reaction" where
  "exportInstruction format instructionId s =
     (case instructionId of
        None \<Rightarrow> \<lparr>after = s, effects = [], thrown = None\<rparr>
      | Some i \<Rightarrow>
          if i = [] then \<lparr>after = s, effects = [], thrown = None\<rparr>
          else \<lparr>after = s,
                effects = [Fetch (js ''GET'') (js ''/api/export/'' @ format @ js ''/'' @ i) Undefined],
                thrown = None\<rparr>)"

definition exportInstruction_response :: "jserror + bool \<Rightarrow> state \<Rightarrow> reaction" where
  "exportInstruction_response response s =
     (case response of
        Inl err \<Rightarrow> \<lparr>after = s, effects = [ConsoleError ExportError err], thrown = None\<rparr>
      | Inr ok \<Rightarrow> \<lparr>after = s, effects = [], thrown = None\<rparr>)"

subsection \<open>The widget as a transition system\<close>

text \<open>
  Everything that can run on the widget after its construction: the event handlers
  attached by \<open>attachEventListeners\<close>, the methods called from rendered markup, the
  public methods, the steps of \<open>init\<close>, and the continuation of every \<open>async\<close> method
  when its request settles.
\<close>

datatype event =
    ChatInput jsstring
  | SendChatMessage stamp
  | ChatResponse "jserror + jsval" stamp stamp
  | SendMessage jsstring stamp
  | AddWelcomeMessage nat stamp
  | TogglePanel
  | ShowPanel
  | HidePanel
  | ToggleMinimize
  | SwitchTab jsstring
  | InitializeWidget
  | HelpResponse "jserror + jsval"
  | LoadPopularInstructions
  | PopularResponse "jserror + jsval"
  | SearchInstructions jsstring
  | SearchResponse "jserror + jsval"
  | ShowInstruction jsstring jsstring
  | InstructionResponse jsstring "jserror + jsval" stamp stamp
  | LoadInstruction jsval stamp
  | StartVoiceInput jsval
  | VoiceResponse jsstring "jserror + jsval" stamp stamp stamp
  | ExportInstruction jsstring "jsstring option"
  | ExportResponse "jserror + bool"
  | Destroy

definition quiet :: "state \<Rightarrow> reaction" where
  "quiet s = \<lparr>after = s, effects = [], thrown = None\<rparr>"

fun step :: "event \<Rightarrow> state \<Rightarrow> reaction" where
  "step (ChatInput v) s = quiet (s\<lparr>currentChatMessage := v\<rparr>)"
| "step (SendChatMessage now) s = sendChatMessage now s"
| "step (ChatResponse response now1 now2) s = sendChatMessage_response response now1 now2 s"
| "step (SendMessage message now) s = sendMessage message now s"
| "step (AddWelcomeMessage i now) s = addWelcomeMessage i now s"
| "step TogglePanel s = quiet (togglePanel s)"
| "step ShowPanel s = quiet (showPanel s)"
| "step HidePanel s = quiet (hidePanel s)"
| "step ToggleMinimize s = quiet (toggleMinimize s)"
| "step (SwitchTab tabName) s = quiet (switchTab tabName s)"
| "step InitializeWidget s = initializeWidget s"
| "step (HelpResponse response) s = initializeWidget_response response s"
| "step LoadPopularInstructions s = loadPopularInstructions s"
| "step (PopularResponse response) s = loadPopularInstructions_response response s"
| "step (SearchInstructions query) s = searchInstructions query s"
| "step (SearchResponse response) s = searchInstructions_response response s"
| "step (ShowInstruction taskId taskName) s = showInstruction taskId taskName s"
| "step (InstructionResponse taskName response now1 now2) s =
     showInstruction_response taskName response now1 now2 s"
| "step (LoadInstruction instruction now) s = loadInstruction instruction now s"
| "step (StartVoiceInput answer) s = startVoiceInput answer s"
| "step (VoiceResponse t response now1 now2 now3) s =
     processVoiceQuery_response t response now1 now2 now3 s"
| "step (ExportInstruction format instructionId) s = exportInstruction format instructionId s"
| "step (ExportResponse response) s = exportInstruction_response response s"
| "step Destroy s = quiet s"

text \<open>The requests to the chat endpoint among the effects of a step.\<close>

fun isChatFetch :: "effect \<Rightarrow> bool" where
  "isChatFetch (Fetch method path body) = (path = js ''/api/chat'')"
| "isChatFetch (ConsoleError site err) = False"

fun isChatResponse :: "event \<Rightarrow> bool" where
  "isChatResponse (ChatResponse response now1 now2) = True"
| "isChatResponse ev = False"

text \<open>
  Running a sequence of events from a state while counting the chat requests that have
  been sent and have not settled yet.  A \<open>ChatResponse\<close> can only happen while a chat
  request is outstanding, and settles one; a sequence that has one without a request to
  settle cannot happen (\<open>None\<close>).
\<close>

fun runTracked :: "event list \<Rightarrow> state \<times> nat \<Rightarrow> (state \<times> nat) option" where
  "runTracked [] c = Some c"
| "runTracked (ev # evs) (s, pending) =
     (if isChatResponse ev \<and> pending = 0 then None
      else runTracked evs
             (after (step ev s),
              pending + length (filter isChatFetch (effects (step ev s)))
                - (if isChatResponse ev then 1 else 0)))"

text \<open>The state after a sequence of events, the exceptions of the single steps aside.\<close>

fun runEvents :: "event list \<Rightarrow> state \<Rightarrow> state" where
  "runEvents [] s = s"
| "runEvents (ev # evs) s = runEvents evs (after (step ev s))"

text \<open>
  The message \<open>addChatMessage('assistant', text)\<close> builds: no instruction payload.
\<close>

definition assistantText :: "stamp \<Rightarrow> jsstring \<Rightarrow> message" where
  "assistantText now t =
     \<lparr>msg_id = fst now, role = Assistant, content = Str t, timestamp = snd now,
      instructionData = Null\<rparr>"


section \<open>Properties of the snapshot tool\<close>

lemma foldl_count_eq:
  "foldl (\<lambda>count childTree. count + (1 + elementCountOrZero childTree)) a ts
     = a + sum_list (map (\<lambda>t. 1 + elementCountOrZero t) ts)"
  by (induction ts arbitrary: a) simp_all

lemma elementCount_sentinel:
  "10 < depth \<Longrightarrow> elementCountOrZero (elementToTree e depth) = 0"
  by (cases e) (simp add: elementToTree.simps elementCountOrZero_def)

lemma elementCount_within:
  "depth \<le> 10 \<Longrightarrow>
     get_elementCount (elementToTree e depth) = Some (descendantsWithin (11 - depth) e)"
proof (induction e arbitrary: depth)
  case (Element tg attrs tx kids)
  obtain k where k: "11 - depth = Suc k" "k = 10 - depth"
    using Element.prems by (cases "11 - depth") auto
  have kid: "elementCountOrZero (elementToTree c (depth + 1)) = descendantsWithin k c"
    if "c \<in> set kids" for c
  proof (cases "depth + 1 \<le> 10")
    case True
    then have "get_elementCount (elementToTree c (depth + 1))
                 = Some (descendantsWithin (11 - (depth + 1)) c)"
      using Element.IH [OF that] by blast
    moreover have "11 - (depth + 1) = k" using k by simp
    ultimately show ?thesis by (simp add: elementCountOrZero_def)
  next
    case False
    then have "k = 0" using k Element.prems by simp
    moreover have "elementCountOrZero (elementToTree c (depth + 1)) = 0"
      using False by (intro elementCount_sentinel) simp
    ultimately show ?thesis by simp
  qed
  have "foldl (\<lambda>count childTree. count + (1 + elementCountOrZero childTree)) 0
              (map (\<lambda>child. elementToTree child (depth + 1)) kids)
          = sum_list (map (\<lambda>t. 1 + elementCountOrZero t)
              (map (\<lambda>child. elementToTree child (depth + 1)) kids))"
    using foldl_count_eq [of 0 "map (\<lambda>child. elementToTree child (depth + 1)) kids"]
    by simp
  also have "\<dots> = sum_list (map (\<lambda>c. 1 + descendantsWithin k c) kids)"
    using kid by (simp add: comp_def cong: map_cong)
  finally show ?case
    using Element.prems k(1)
    by (simp add: elementToTree.simps Let_def)
qed

lemma descendantsWithin_all:
  "height e \<le> k \<Longrightarrow> descendantsWithin k e = descendants e"
proof (induction k e rule: descendantsWithin.induct)
  case (1 e)
  then show ?case
    by (cases e; cases "children e") (auto simp: max_def split: if_splits)
next
  case (2 k tg attrs tx kids)
  have le: "1 + height c \<le> Suc k" if "c \<in> set kids" for c
  proof -
    have "\<And>m. foldr max (map (\<lambda>c. 1 + height c) kids) 0 \<le> m \<Longrightarrow> 1 + height c \<le> m"
      using that by (induction kids) auto
    from this [of "Suc k"] show ?thesis using "2.prems" by simp
  qed
  have "descendantsWithin k c = descendants c" if "c \<in> set kids" for c
    using "2.IH" [OF that] le [OF that] by simp
  then show ?case by (simp cong: map_cong)
qed

lemma singleSpaced_replaceWhiteSpaceRuns: "singleSpaced (replaceWhiteSpaceRuns s)"
proof (induction s rule: replaceWhiteSpaceRuns.induct)
  case 1
  show ?case by simp
next
  case (2 c cs)
  show ?case
  proof (cases "isWhiteSpace c")
    case True
    define r where "r = dropWhile isWhiteSpace cs"
    have unfold: "replaceWhiteSpaceRuns (c # cs) = 0x20 # replaceWhiteSpaceRuns r"
      using True by (simp add: r_def)
    have ih: "singleSpaced (replaceWhiteSpaceRuns r)"
      using "2.IH"(1) [OF True] by (simp add: r_def)
    have sp: "isWhiteSpace 0x20" by (simp add: isWhiteSpace_def)
    show ?thesis
    proof (cases r)
      case Nil
      then show ?thesis using unfold by simp
    next
      case (Cons d ds)
      then have "\<not> isWhiteSpace d"
        unfolding r_def by (metis dropWhile_eq_Cons_conv)
      then show ?thesis using unfold Cons ih by simp
    qed
  next
    case False
    then show ?thesis using "2.IH"(2)
      by (cases "replaceWhiteSpaceRuns cs") simp_all
  qed
qed

lemma singleSpaced_take: "singleSpaced s \<Longrightarrow> singleSpaced (take n s)"
proof (induction s arbitrary: n rule: singleSpaced.induct)
  case 1
  show ?case by simp
next
  case (2 c)
  then show ?case by (cases n) simp_all
next
  case (3 c d cs)
  show ?case
  proof (cases n)
    case 0
    then show ?thesis by simp
  next
    case (Suc m)
    then show ?thesis using "3.prems" "3.IH" [of m] by (cases m) simp_all
  qed
qed

lemma trim_no_leading_space: "trim s \<noteq> [] \<Longrightarrow> \<not> isWhiteSpace (hd (trim s))"
proof -
  assume ne: "trim s \<noteq> []"
  define u where "u = dropWhile isWhiteSpace s"
  have t: "trim s = rev (dropWhile isWhiteSpace (rev u))"
    by (simp add: trim_def u_def)
  with ne have "u \<noteq> []" by auto
  then have hd_u: "\<not> isWhiteSpace (hd u)"
    unfolding u_def by (simp add: hd_dropWhile)
  obtain ys where ys: "rev u = takeWhile isWhiteSpace (rev u) @ ys"
      "ys = dropWhile isWhiteSpace (rev u)"
    by simp
  from ne t ys(2) have "ys \<noteq> []" by simp
  have "u = rev ys @ rev (takeWhile isWhiteSpace (rev u))"
    using ys(1) by (metis rev_append rev_rev_ident)
  with \<open>ys \<noteq> []\<close> have "hd u = hd (rev ys)" by (metis hd_append2 rev_is_Nil_conv)
  with hd_u t ys(2) show ?thesis by simp
qed

lemma height_child:
  "c \<in> set kids \<Longrightarrow> 1 + height c \<le> foldr max (map (\<lambda>c. 1 + height c) kids) 0"
  by (induction kids) auto

lemma height_attained:
  "kids \<noteq> [] \<Longrightarrow> \<exists>c\<in>set kids. foldr max (map (\<lambda>c. 1 + height c) kids) 0 = 1 + height c"
proof (induction kids)
  case Nil
  then show ?case by simp
next
  case (Cons k ks)
  show ?case
  proof (cases "ks = []")
    case True
    then show ?thesis by simp
  next
    case False
    then obtain c where c: "c \<in> set ks"
        "foldr max (map (\<lambda>c. 1 + height c) ks) 0 = 1 + height c"
      using Cons.IH by blast
    show ?thesis
    proof (cases "1 + height c \<le> 1 + height k")
      case True
      then have "foldr max (map (\<lambda>c. 1 + height c) (k # ks)) 0 = 1 + height k"
        using c(2) by simp
      then show ?thesis by simp
    next
      case False
      then have "foldr max (map (\<lambda>c. 1 + height c) (k # ks)) 0 = 1 + height c"
        using c(2) by simp
      then show ?thesis using c(1) by auto
    qed
  qed
qed

lemma toLowerCase_Nil: "toLowerCase [] = []"
  by (simp add: toLowerCase_def)

lemma addCounts_all_Inr:
  "(\<And>x. x \<in> set xs \<Longrightarrow> f x = Inr (g x)) \<Longrightarrow>
     addCounts count (map f xs) = Inr (count + sum_list (map g xs))"
  by (induction xs arbitrary: count) simp_all

lemma addCounts_Inl_member: "addCounts count rs = Inl err \<Longrightarrow> Inl err \<in> set rs"
  by (induction count rs rule: addCounts.induct) auto

lemma addCounts_throws: "Inl e \<in> set rs \<Longrightarrow> \<exists>err. addCounts count rs = Inl err"
  by (induction count rs rule: addCounts.induct) auto

lemma countInteractiveElements_TypeError:
  "countInteractiveElements t = Inl err \<Longrightarrow> err = TypeError"
proof (induction t)
  case (ElementInfo t a kids tx n)
  from ElementInfo.prems obtain k where "k \<in> set kids" "countInteractiveElements k = Inl err"
    using addCounts_Inl_member by fastforce
  then show ?case using ElementInfo.IH by blast
qed simp_all

lemma countInteractiveElements_deep:
  "10 < depth + height e \<Longrightarrow> countInteractiveElements (elementToTree e depth) = Inl TypeError"
proof (induction e arbitrary: depth)
  case (Element tg attrs tx kids)
  show ?case
  proof (cases "10 < depth")
    case True
    then show ?thesis by (simp add: elementToTree.simps)
  next
    case False
    with Element.prems have "kids \<noteq> []" by auto
    then obtain c where c: "c \<in> set kids"
        "foldr max (map (\<lambda>c. 1 + height c) kids) 0 = 1 + height c"
      using height_attained by blast
    with Element.prems have "10 < (depth + 1) + height c" by simp
    then have "countInteractiveElements (elementToTree c (depth + 1)) = Inl TypeError"
      using Element.IH [OF c(1)] by blast
    then have "Inl TypeError
        \<in> set (map countInteractiveElements (map (\<lambda>child. elementToTree child (depth + 1)) kids))"
      using c(1) by force
    then obtain err where err:
        "countInteractiveElements (elementToTree (Element tg attrs tx kids) depth) = Inl err"
      using False addCounts_throws by (fastforce simp: elementToTree.simps Let_def)
    then show ?thesis using countInteractiveElements_TypeError by simp
  qed
qed

lemma countInteractiveElements_shallow:
  "depth + height e \<le> 10 \<Longrightarrow>
     countInteractiveElements (elementToTree e depth) = Inr (interactiveInDocument e)"
proof (induction e arbitrary: depth)
  case (Element tg attrs tx kids)
  have kid: "countInteractiveElements (elementToTree c (depth + 1)) = Inr (interactiveInDocument c)"
    if "c \<in> set kids" for c
  proof -
    have "1 + height c \<le> height (Element tg attrs tx kids)"
      using height_child [OF that] by simp
    with Element.prems have "(depth + 1) + height c \<le> 10" by simp
    then show ?thesis using Element.IH [OF that] by blast
  qed
  have "addCounts count (map (\<lambda>c. countInteractiveElements (elementToTree c (depth + 1))) kids)
          = Inr (count + sum_list (map interactiveInDocument kids))" for count
    using kid by (rule addCounts_all_Inr)
  moreover have "depth \<le> 10" using Element.prems by simp
  ultimately show ?case
    by (simp add: elementToTree.simps Let_def comp_def toLowerCase_Nil)
qed

lemma elementCountOrZero_root:
  "elementCountOrZero (elementToTree e 0) = descendantsWithin 11 e"
  using elementCount_within [of 0 e] by (simp add: elementCountOrZero_def)

lemma parseDOM_document:
  "readFileSync pf f = Inr html \<Longrightarrow> JSDOM pf html = Inr e \<Longrightarrow> parseDOM pf f = elementToTree e 0"
  by (simp add: parseDOM_def)

lemma analyzeFile_results: "snd (analyzeFile pf acc f) = snd acc @ [fileResult pf f]"
  by (simp add: analyzeFile_def fileResult_def Let_def split: sum.splits)

lemma foldl_analyzeFile_results:
  "snd (foldl (analyzeFile pf) acc files) = snd acc @ map (fileResult pf) files"
  by (induction files arbitrary: acc) (simp_all add: analyzeFile_results)

lemma analyzeDOM_results:
  "\<exists>rep. analyzeDOM pf (Arr files) = Inr rep \<and> results rep = map (fileResult pf) files"
  by (simp add: analyzeDOM_def Let_def foldl_analyzeFile_results)

lemma analyzeDOM_not_array: "\<forall>files. v \<noteq> Arr files \<Longrightarrow> analyzeDOM pf v = Inl TypeError"
  by (cases v) (simp_all add: analyzeDOM_def)



text \<open>
  C1 (as amended).  The root's \<open>elementCount\<close> is the number of elements strictly below
  the root and at most 11 levels below it: a child that is a depth-limit sentinel counts
  as one element and contributes nothing for what lies below it.  For a document whose
  element tree is at most 11 levels high this is the total number of descendant elements
  of the root, the root itself excluded.
\<close>

theorem C1_elementCount_counts_descendants_within_limit:
  "get_elementCount (elementToTree e 0) = Some (descendantsWithin 11 e)
   \<and> (height e \<le> 11 \<longrightarrow> get_elementCount (elementToTree e 0) = Some (descendants e))"
  using elementCount_within [of 0 e] descendantsWithin_all [of e 11] by simp

theorem C1_elementCount_counts_descendants_within_limit_witness:
  "height exampleDocument \<le> 11
   \<and> get_elementCount (elementToTree exampleDocument 0) = Some (descendants exampleDocument)
   \<and> descendants exampleDocument = 3"
  using C1_elementCount_counts_descendants_within_limit [of exampleDocument]
  by (simp add: exampleDocument_def eval_nat_numeral)

text \<open>
  C1 as stated fails on a document that is more than 11 levels high: in \<open>deepDocument\<close>
  the root has 13 descendant elements, and its \<open>elementCount\<close> is 12, because the
  \<open>button\<close> below the sentinel at depth 11 is not counted.
\<close>

theorem C1_elementCount_counterexample:
  "descendants deepDocument = 13
   \<and> get_elementCount (elementToTree deepDocument 0) = Some 12
   \<and> get_elementCount (elementToTree deepDocument 0) \<noteq> Some (descendants deepDocument)"
proof -
  have d: "descendants deepDocument = 13"
    by (simp add: deepDocument_def eval_nat_numeral)
  have w: "descendantsWithin 11 deepDocument = 12"
    by (simp add: deepDocument_def eval_nat_numeral)
  show ?thesis
    using d w elementCount_within [of 0 deepDocument] by simp
qed

text \<open>
  C3.  A node built by \<open>elementToTree\<close> at depth at most 10 carries as
  \<open>textContent\<close> the element's text content trimmed, with its white-space runs replaced
  by single spaces, cut to the first 200 code units: the field is at most 200 long, it
  does not begin with white space, and every white-space code unit in it is a single
  U+0020 not followed by more white space.  (Beyond depth 10 the sentinel has no
  \<open>textContent\<close> property at all.)
\<close>

theorem C3_textContent_trimmed_collapsed_truncated:
  "get_textContent (elementToTree e depth)
     = (if depth > 10 then None
        else Some (substring (replaceWhiteSpaceRuns (trim (textContent e))) 0 200))
   \<and> (\<forall>t. get_textContent (elementToTree e depth) = Some t \<longrightarrow>
          length t \<le> 200 \<and> singleSpaced t \<and> (t \<noteq> [] \<longrightarrow> \<not> isWhiteSpace (hd t)))"
proof -
  let ?p = "substring (replaceWhiteSpaceRuns (trim (textContent e))) 0 200"
  have eq: "nodeText (textContent e) = ?p"
    by (simp add: nodeText_def trim_def substring_def)
  have field: "get_textContent (elementToTree e depth) = (if depth > 10 then None else Some ?p)"
    using eq by (cases e) (simp add: elementToTree.simps Let_def)
  have len: "length ?p \<le> 200"
    by (simp add: substring_def)
  have sing: "singleSpaced ?p"
    by (simp add: substring_def singleSpaced_take singleSpaced_replaceWhiteSpaceRuns)
  have lead: "\<not> isWhiteSpace (hd ?p)" if "?p \<noteq> []"
  proof -
    from that have ne: "trim (textContent e) \<noteq> []"
      by (auto simp: substring_def)
    then obtain c cs where c: "trim (textContent e) = c # cs"
      by (cases "trim (textContent e)") auto
    with trim_no_leading_space [OF ne] have "\<not> isWhiteSpace c" by simp
    with c show ?thesis by (simp add: substring_def)
  qed
  show ?thesis
    using field len sing lead by (auto split: if_splits)
qed

theorem C3_textContent_trimmed_collapsed_truncated_witness:
  "get_textContent
     (elementToTree (Element (js ''P'') [] [0x20, 0x0A, 0x61, 0x09, 0xA0, 0x0A, 0x62, 0x20] []) 3)
     = Some [0x61, 0x20, 0x62]
   \<and> length [0x61, 0x20, 0x62 :: jschar] \<le> 200
   \<and> singleSpaced [0x61, 0x20, 0x62]"
  using C3_textContent_trimmed_collapsed_truncated
    [of "Element (js ''P'') [] [0x20, 0x0A, 0x61, 0x09, 0xA0, 0x0A, 0x62, 0x20] []" 3]
  by (simp add: substring_def trim_def isWhiteSpace_def)

lemma height_nest: "height (nest n e) = n + height e"
  by (induction n) simp_all

lemma div_not_interactive: "toLowerCase (js ''DIV'') \<notin> set interactiveTags"
  by (simp add: interactiveTags_def toLowerCase_def js_def)

lemma interactiveInDocument_nest: "interactiveInDocument (nest n e) = interactiveInDocument e"
  by (induction n) (simp_all add: div_not_interactive)

lemma height_deepDocument: "height deepDocument = 12"
  by (simp add: deepDocument_def height_nest)

lemma fileResult_unreadable:
  "readFileSync pf f = Inl e \<Longrightarrow> fileResult pf f = FileError f TypeError"
  by (simp add: fileResult_def parseDOM_def)

lemma fileResult_unparsable:
  "readFileSync pf f = Inr html \<Longrightarrow> JSDOM pf html = Inl e \<Longrightarrow>
     fileResult pf f = FileError f TypeError"
  by (simp add: fileResult_def parseDOM_def)

lemma main_completed:
  "readFileSync pf tempFile = Inr listing \<Longrightarrow> JSON_parse pf listing = Inr (Arr files) \<Longrightarrow>
   writeFileSync pf = None \<Longrightarrow>
     \<exists>rep. main pf tempFile = Completed rep (length files)
           \<and> results rep = map (fileResult pf) files"
  using analyzeDOM_results [of pf files] by (auto simp: main_def)

lemma fileResult_example_a:
  "fileResult examplePlatform (Str (js ''a.html''))
     = Analysis (Str (js ''a.html'')) (elementToTree exampleDocument 0)
         \<lparr>totalElements = 3, interactiveElements = 1\<rparr>"
proof -
  have r: "parseDOM examplePlatform (Str (js ''a.html'')) = elementToTree exampleDocument 0"
    by (simp add: parseDOM_def examplePlatform_def js_def)
  have h: "0 + height exampleDocument \<le> 10"
    by (simp add: exampleDocument_def)
  have i: "interactiveInDocument exampleDocument = 1"
    by (simp add: exampleDocument_def interactiveTags_def toLowerCase_def js_def)
  have d: "descendantsWithin 11 exampleDocument = 3"
    by (simp add: exampleDocument_def eval_nat_numeral)
  show ?thesis
    using countInteractiveElements_shallow [OF h] i d
    by (simp add: fileResult_def r elementCountOrZero_root)
qed

lemma fileResult_example_deep:
  "fileResult examplePlatform (Str (js ''deep.html''))
     = FileError (Str (js ''deep.html'')) TypeError"
proof -
  have r: "parseDOM examplePlatform (Str (js ''deep.html'')) = elementToTree deepDocument 0"
    by (simp add: parseDOM_def examplePlatform_def js_def)
  show ?thesis
    using countInteractiveElements_deep [of 0 deepDocument] height_deepDocument
    by (simp add: fileResult_def r)
qed

lemma fileResult_example_missing:
  "fileResult examplePlatform (Str (js ''missing.html''))
     = FileError (Str (js ''missing.html'')) TypeError"
  by (rule fileResult_unreadable [where e = "Failure (js ''ENOENT'')"])
     (simp add: examplePlatform_def js_def)

text \<open>
  C7.  \<open>analyzeDOM\<close> on an array of paths returns a report with one entry per path, in
  order, each entry depending on its own file only: a file that cannot be read or
  parsed is recorded as \<open>{file, error}\<close> and the files after it are still processed.  At
  the entry point, an input list that cannot be read, is not JSON or is not an array
  ends the run in the \<open>catch\<close>: a JSON error line and \<open>process.exit(1)\<close>; with a readable
  list the run completes whatever happens to the single files.
\<close>

theorem C7_file_errors_recorded_startup_errors_fatal:
  "(\<exists>rep. analyzeDOM pf (Arr files) = Inr rep \<and> results rep = map (fileResult pf) files)
   \<and> (readFileSync pf f = Inl e \<longrightarrow> fileResult pf f = FileError f TypeError)
   \<and> (readFileSync pf f = Inr html \<and> JSDOM pf html = Inl e \<longrightarrow>
        fileResult pf f = FileError f TypeError)
   \<and> (readFileSync pf tempFile = Inl err \<longrightarrow> main pf tempFile = Exited 1 err)
   \<and> (readFileSync pf tempFile = Inr listing \<and> JSON_parse pf listing = Inl err \<longrightarrow>
        main pf tempFile = Exited 1 err)
   \<and> (readFileSync pf tempFile = Inr listing \<and> JSON_parse pf listing = Inr v
        \<and> (\<forall>paths. v \<noteq> Arr paths) \<longrightarrow>
        main pf tempFile = Exited 1 TypeError)
   \<and> (readFileSync pf tempFile = Inr listing \<and> JSON_parse pf listing = Inr (Arr files)
        \<and> writeFileSync pf = None \<longrightarrow>
        (\<exists>rep. main pf tempFile = Completed rep (length files)
               \<and> results rep = map (fileResult pf) files))"
proof -
  have unreadable_list: "main pf tempFile = Exited 1 err" if "readFileSync pf tempFile = Inl err"
    using that by (simp add: main_def)
  have bad_json: "main pf tempFile = Exited 1 err"
    if "readFileSync pf tempFile = Inr listing" "JSON_parse pf listing = Inl err"
    using that by (simp add: main_def)
  have not_array: "main pf tempFile = Exited 1 TypeError"
    if "readFileSync pf tempFile = Inr listing" "JSON_parse pf listing = Inr v"
       "\<forall>paths. v \<noteq> Arr paths"
    using that(1,2) analyzeDOM_not_array [OF that(3), of pf] by (simp add: main_def)
  show ?thesis
    using analyzeDOM_results [of pf files] fileResult_unreadable [of pf f e]
      fileResult_unparsable [of pf f html e] unreadable_list bad_json not_array
      main_completed [of pf tempFile listing files]
    by blast
qed

theorem C7_file_errors_recorded_startup_errors_fatal_witness:
  "(\<exists>rep. main examplePlatform (Str (js ''list.json'')) = Completed rep 4
        \<and> results rep =
            [Analysis (Str (js ''a.html'')) (elementToTree exampleDocument 0)
               \<lparr>totalElements = 3, interactiveElements = 1\<rparr>,
             FileError (Str (js ''deep.html'')) TypeError,
             FileError (Str (js ''missing.html'')) TypeError,
             Analysis (Str (js ''a.html'')) (elementToTree exampleDocument 0)
               \<lparr>totalElements = 3, interactiveElements = 1\<rparr>])
   \<and> main examplePlatform (Str (js ''nolist.json'')) = Exited 1 (Failure (js ''ENOENT''))
   \<and> main examplePlatform (Str (js ''bad.json'')) = Exited 1 (Failure (js ''Unexpected token''))
   \<and> main examplePlatform (Str (js ''object.json'')) = Exited 1 TypeError"
proof -
  let ?paths = "[Str (js ''a.html''), Str (js ''deep.html''),
                 Str (js ''missing.html''), Str (js ''a.html'')]"
  have r1: "readFileSync examplePlatform (Str (js ''list.json'')) = Inr (js ''[...]'')"
    by (simp add: examplePlatform_def js_def)
  have p1: "JSON_parse examplePlatform (js ''[...]'') = Inr (Arr ?paths)"
    by (simp add: examplePlatform_def)
  have w: "writeFileSync examplePlatform = None"
    by (simp add: examplePlatform_def)
  have r2: "readFileSync examplePlatform (Str (js ''nolist.json'')) = Inl (Failure (js ''ENOENT''))"
    by (simp add: examplePlatform_def js_def)
  have r3: "readFileSync examplePlatform (Str (js ''bad.json'')) = Inr (js ''not json'')"
    by (simp add: examplePlatform_def js_def)
  have p3: "JSON_parse examplePlatform (js ''not json'') = Inl (Failure (js ''Unexpected token''))"
    by (simp add: examplePlatform_def js_def)
  have r4: "readFileSync examplePlatform (Str (js ''object.json'')) = Inr (js ''{}'')"
    by (simp add: examplePlatform_def js_def)
  have p4: "JSON_parse examplePlatform (js ''{}'') = Inr (Obj [])"
    by (simp add: examplePlatform_def js_def)
  have len: "length ?paths = 4"
    by simp
  have "\<exists>rep. main examplePlatform (Str (js ''list.json'')) = Completed rep 4
          \<and> results rep = map (fileResult examplePlatform) ?paths"
    using r1 p1 w
      C7_file_errors_recorded_startup_errors_fatal
        [where pf = examplePlatform and tempFile = "Str (js ''list.json'')"
           and listing = "js ''[...]''" and files = ?paths]
    by (subst len [symmetric]) blast
  moreover have "main examplePlatform (Str (js ''nolist.json'')) = Exited 1 (Failure (js ''ENOENT''))"
    using r2
      C7_file_errors_recorded_startup_errors_fatal
        [where pf = examplePlatform and tempFile = "Str (js ''nolist.json'')"
           and err = "Failure (js ''ENOENT'')"]
    by blast
  moreover have "main examplePlatform (Str (js ''bad.json''))
                   = Exited 1 (Failure (js ''Unexpected token''))"
    using r3 p3
      C7_file_errors_recorded_startup_errors_fatal
        [where pf = examplePlatform and tempFile = "Str (js ''bad.json'')"
           and listing = "js ''not json''" and err = "Failure (js ''Unexpected token'')"]
    by blast
  moreover have "main examplePlatform (Str (js ''object.json'')) = Exited 1 TypeError"
    using r4 p4
      C7_file_errors_recorded_startup_errors_fatal
        [where pf = examplePlatform and tempFile = "Str (js ''object.json'')"
           and listing = "js ''{}''" and v = "Obj []"]
    by simp
  ultimately show ?thesis
    by (simp add: fileResult_example_a fileResult_example_deep fileResult_example_missing)
qed

lemma height_limitDocument: "height limitDocument = 11"
  by (simp add: limitDocument_def height_nest)

lemma analyzeDOM_single_error:
  "countInteractiveElements (parseDOM pf f) = Inl err \<Longrightarrow>
     analyzeDOM pf (Arr [f]) = Inr \<lparr>summary = emptySummary 1, results = [FileError f err]\<rparr>"
  by (simp add: analyzeDOM_def analyzeFile_def Let_def)

lemma analyzeDOM_results_at:
  "\<exists>rep. analyzeDOM pf (Arr (before @ f # rest)) = Inr rep
         \<and> results rep = map (fileResult pf) before @ fileResult pf f # map (fileResult pf) rest
         \<and> length (results rep) = length before + 1 + length rest
         \<and> results rep ! length before = fileResult pf f"
proof -
  obtain rep where rep: "analyzeDOM pf (Arr (before @ f # rest)) = Inr rep"
      "results rep = map (fileResult pf) (before @ f # rest)"
    using analyzeDOM_results [of pf "before @ f # rest"] by blast
  have "results rep ! length before = fileResult pf f"
    using rep(2) by (simp add: nth_append)
  then show ?thesis using rep by simp
qed

text \<open>
  C4.  The claim fails on the code by a missed case.  \<open>limitDocument\<close> has one
  interactive element, its \<open>button\<close> at depth 11; \<open>elementToTree\<close> still counts every
  element of it (\<open>elementCount\<close> is the full number of descendants), but
  \<open>countInteractiveElements\<close> reads \<open>node.children\<close> of the sentinel it stands for
  without the guard that the readers of \<open>elementCount\<close> have, and throws.  The report of
  \<open>analyzeDOM\<close> then holds \<open>{file, error}\<close> for the file and no \<open>interactiveElements\<close>
  statistic at all.
\<close>

theorem C4_interactive_count_throws_at_depth_limit:
  "interactiveInDocument limitDocument = 1
   \<and> height limitDocument = 11
   \<and> get_elementCount (elementToTree limitDocument 0) = Some (descendants limitDocument)
   \<and> countInteractiveElements (elementToTree limitDocument 0) = Inl TypeError
   \<and> analyzeDOM examplePlatform (Arr [Str (js ''limit.html'')])
       = Inr \<lparr>summary = emptySummary 1,
              results = [FileError (Str (js ''limit.html'')) TypeError]\<rparr>"
proof -
  have i: "interactiveInDocument limitDocument = 1"
    by (simp add: limitDocument_def interactiveInDocument_nest interactiveTags_def
          toLowerCase_def js_def)
  have c: "get_elementCount (elementToTree limitDocument 0) = Some (descendants limitDocument)"
    using elementCount_within [of 0 limitDocument]
      descendantsWithin_all [of limitDocument 11] height_limitDocument
    by simp
  have t: "countInteractiveElements (elementToTree limitDocument 0) = Inl TypeError"
    using height_limitDocument countInteractiveElements_deep [of 0 limitDocument] by simp
  have r: "parseDOM examplePlatform (Str (js ''limit.html'')) = elementToTree limitDocument 0"
    by (simp add: parseDOM_def examplePlatform_def js_def)
  have a: "analyzeDOM examplePlatform (Arr [Str (js ''limit.html'')])
       = Inr \<lparr>summary = emptySummary 1,
              results = [FileError (Str (js ''limit.html'')) TypeError]\<rparr>"
    by (rule analyzeDOM_single_error) (simp add: r t)
  show ?thesis
    using i c t a height_limitDocument by simp
qed

text \<open>
  C10.  The sentinel and the \<open>{error}\<close> object have no \<open>children\<close> property, and
  \<open>countInteractiveElements\<close> iterates \<open>node.children\<close> of every node it visits.  So for
  a file whose element tree is more than 10 levels high the count throws a TypeError,
  the \<open>catch\<close> of the \<open>forEach\<close> callback takes it with the summary left as it was, and
  the report \<open>analyzeDOM\<close> returns holds \<open>{file, error}\<close> at the file's position in
  place of an analysis with statistics, whatever files come before and after it.  The
  same happens when the file cannot be read.
\<close>

theorem C10_deep_file_recorded_as_error:
  "get_children (DepthLimit t) = None
   \<and> get_children (ErrorObject err) = None
   \<and> (10 < height e \<longrightarrow>
        countInteractiveElements (elementToTree e 0) = Inl TypeError
        \<and> (readFileSync pf f = Inr html \<and> JSDOM pf html = Inr e \<longrightarrow>
             analyzeFile pf acc f = (fst acc, snd acc @ [FileError f TypeError])
             \<and> analyzeDOM pf (Arr [f])
                 = Inr \<lparr>summary = emptySummary 1, results = [FileError f TypeError]\<rparr>
             \<and> (\<exists>rep. analyzeDOM pf (Arr (before @ f # rest)) = Inr rep
                    \<and> results rep = map (fileResult pf) before @ FileError f TypeError
                                        # map (fileResult pf) rest
                    \<and> length (results rep) = length before + 1 + length rest
                    \<and> results rep ! length before = FileError f TypeError)))
   \<and> (readFileSync pf f = Inl err \<longrightarrow>
        analyzeFile pf acc f = (fst acc, snd acc @ [FileError f TypeError])
        \<and> analyzeDOM pf (Arr [f])
            = Inr \<lparr>summary = emptySummary 1, results = [FileError f TypeError]\<rparr>
        \<and> (\<exists>rep. analyzeDOM pf (Arr (before @ f # rest)) = Inr rep
               \<and> results rep = map (fileResult pf) before @ FileError f TypeError
                                   # map (fileResult pf) rest
               \<and> length (results rep) = length before + 1 + length rest
               \<and> results rep ! length before = FileError f TypeError))"
proof -
  have deep: "countInteractiveElements (elementToTree e 0) = Inl TypeError" if "10 < height e"
    using that countInteractiveElements_deep [of 0 e] by simp
  have throws_deep: "countInteractiveElements (parseDOM pf f) = Inl TypeError"
    if "10 < height e" "readFileSync pf f = Inr html" "JSDOM pf html = Inr e"
    using deep [OF that(1)] parseDOM_document [OF that(2,3)] by simp
  have throws_unread: "countInteractiveElements (parseDOM pf f) = Inl TypeError"
    if "readFileSync pf f = Inl err"
    using that by (simp add: parseDOM_def)
  have entry: "analyzeFile pf acc f = (fst acc, snd acc @ [FileError f TypeError])"
    if "countInteractiveElements (parseDOM pf f) = Inl TypeError"
    using that by (simp add: analyzeFile_def Let_def)
  have single: "analyzeDOM pf (Arr [f])
                  = Inr \<lparr>summary = emptySummary 1, results = [FileError f TypeError]\<rparr>"
    if "countInteractiveElements (parseDOM pf f) = Inl TypeError"
    using that by (rule analyzeDOM_single_error)
  have among: "\<exists>rep. analyzeDOM pf (Arr (before @ f # rest)) = Inr rep
                 \<and> results rep = map (fileResult pf) before @ FileError f TypeError
                                     # map (fileResult pf) rest
                 \<and> length (results rep) = length before + 1 + length rest
                 \<and> results rep ! length before = FileError f TypeError"
    if "countInteractiveElements (parseDOM pf f) = Inl TypeError"
  proof -
    have "fileResult pf f = FileError f TypeError"
      using that by (simp add: fileResult_def)
    then show ?thesis
      using analyzeDOM_results_at [of pf before f rest] by simp
  qed
  have part_deep: "10 < height e \<longrightarrow>
        countInteractiveElements (elementToTree e 0) = Inl TypeError
        \<and> (readFileSync pf f = Inr html \<and> JSDOM pf html = Inr e \<longrightarrow>
             analyzeFile pf acc f = (fst acc, snd acc @ [FileError f TypeError])
             \<and> analyzeDOM pf (Arr [f])
                 = Inr \<lparr>summary = emptySummary 1, results = [FileError f TypeError]\<rparr>
             \<and> (\<exists>rep. analyzeDOM pf (Arr (before @ f # rest)) = Inr rep
                    \<and> results rep = map (fileResult pf) before @ FileError f TypeError
                                        # map (fileResult pf) rest
                    \<and> length (results rep) = length before + 1 + length rest
                    \<and> results rep ! length before = FileError f TypeError))"
    using deep throws_deep entry single among by blast
  have part_unread: "readFileSync pf f = Inl err \<longrightarrow>
        analyzeFile pf acc f = (fst acc, snd acc @ [FileError f TypeError])
        \<and> analyzeDOM pf (Arr [f])
            = Inr \<lparr>summary = emptySummary 1, results = [FileError f TypeError]\<rparr>
        \<and> (\<exists>rep. analyzeDOM pf (Arr (before @ f # rest)) = Inr rep
               \<and> results rep = map (fileResult pf) before @ FileError f TypeError
                                   # map (fileResult pf) rest
               \<and> length (results rep) = length before + 1 + length rest
               \<and> results rep ! length before = FileError f TypeError)"
    using throws_unread entry single among by blast
  show ?thesis
    using part_deep part_unread by simp
qed

theorem C10_deep_file_recorded_as_error_witness:
  "10 < height deepDocument
   \<and> countInteractiveElements (elementToTree deepDocument 0) = Inl TypeError
   \<and> analyzeFile examplePlatform (emptySummary 2, []) (Str (js ''deep.html''))
       = (emptySummary 2, [FileError (Str (js ''deep.html'')) TypeError])
   \<and> analyzeDOM examplePlatform (Arr [Str (js ''deep.html'')])
       = Inr \<lparr>summary = emptySummary 1,
              results = [FileError (Str (js ''deep.html'')) TypeError]\<rparr>
   \<and> (\<exists>rep. analyzeDOM examplePlatform
                 (Arr [Str (js ''a.html''), Str (js ''deep.html''), Str (js ''a.html'')]) = Inr rep
          \<and> results rep =
              [Analysis (Str (js ''a.html'')) (elementToTree exampleDocument 0)
                 \<lparr>totalElements = 3, interactiveElements = 1\<rparr>,
               FileError (Str (js ''deep.html'')) TypeError,
               Analysis (Str (js ''a.html'')) (elementToTree exampleDocument 0)
                 \<lparr>totalElements = 3, interactiveElements = 1\<rparr>])
   \<and> analyzeDOM examplePlatform (Arr [Str (js ''missing.html'')])
       = Inr \<lparr>summary = emptySummary 1,
              results = [FileError (Str (js ''missing.html'')) TypeError]\<rparr>"
proof -
  have h: "10 < height deepDocument"
    by (simp add: height_deepDocument)
  have r: "readFileSync examplePlatform (Str (js ''deep.html'')) = Inr (js ''<html><body><div><div>...'')"
    by (simp add: examplePlatform_def js_def)
  have p: "JSDOM examplePlatform (js ''<html><body><div><div>...'') = Inr deepDocument"
    by (simp add: examplePlatform_def)
  have m: "readFileSync examplePlatform (Str (js ''missing.html'')) = Inl (Failure (js ''ENOENT''))"
    by (simp add: examplePlatform_def js_def)
  note deep_case =
    C10_deep_file_recorded_as_error
      [where e = deepDocument and pf = examplePlatform and f = "Str (js ''deep.html'')"
         and html = "js ''<html><body><div><div>...''" and acc = "(emptySummary 2, [])"
         and before = "[Str (js ''a.html'')]" and rest = "[Str (js ''a.html'')]"]
  note missing_case =
    C10_deep_file_recorded_as_error
      [where e = deepDocument and pf = examplePlatform and f = "Str (js ''missing.html'')"
         and acc = "(emptySummary 2, [])" and err = "Failure (js ''ENOENT'')"
         and before = "[]" and rest = "[]"]
  show ?thesis
    using h r p m deep_case missing_case
    by (simp add: fileResult_example_a) blast
qed

lemma trim_blank: "(\<forall>c\<in>set s. isWhiteSpace c) \<Longrightarrow> trim s = []"
proof -
  assume "\<forall>c\<in>set s. isWhiteSpace c"
  then have d: "dropWhile isWhiteSpace s = []" by simp
  show ?thesis unfolding trim_def d by simp
qed

lemma addChatMessage_chatMessages:
  "chatMessages (fst (addChatMessage now r c i s)) = chatMessages s
       @ [\<lparr>msg_id = fst now, role = r, content = c, timestamp = snd now,
            instructionData = (if i = Undefined then Null else i)\<rparr>]"
  by (simp add: addChatMessage_def Let_def)

lemma addChatMessage_waiting:
  "isWaitingForResponse (fst (addChatMessage now r c i s)) = isWaitingForResponse s"
  by (simp add: addChatMessage_def Let_def)

lemma addChatMessage_thrown:
  "snd (addChatMessage now r c i s) = renderChatMessages (fst (addChatMessage now r c i s))"
  by (simp add: addChatMessage_def Let_def)

lemma addChatMessage_result:
  "addChatMessage now r c i s = (s', t) \<Longrightarrow>
     chatMessages s' = chatMessages s
       @ [\<lparr>msg_id = fst now, role = r, content = c, timestamp = snd now,
            instructionData = (if i = Undefined then Null else i)\<rparr>]
     \<and> isWaitingForResponse s' = isWaitingForResponse s
     \<and> t = renderChatMessages s'"
proof -
  assume a: "addChatMessage now r c i s = (s', t)"
  then have "s' = fst (addChatMessage now r c i s)" "t = snd (addChatMessage now r c i s)"
    by simp_all
  then show ?thesis
    using addChatMessage_chatMessages [of now r c i s] addChatMessage_waiting [of now r c i s]
      addChatMessage_thrown [of now r c i s]
    by simp
qed

lemma renderAll_append:
  "renderAll (ms @ [m]) = (case renderAll ms of Some err \<Rightarrow> Some err | None \<Rightarrow> renderMessage m)"
  by (induction ms) (simp_all split: option.splits)

lemma renderMessage_assistantText: "renderMessage (assistantText now t) = None"
  by (simp add: renderMessage_def assistantText_def escapeHtml_def)

text \<open>
  C5.  When the chat input is empty or holds white space only, \<open>sendChatMessage\<close> returns
  at once: the state, and with it the list of chat messages, is unchanged, nothing is
  sent and nothing is thrown.
\<close>

theorem C5_blank_chat_message_is_noop:
  "\<forall>c\<in>set (currentChatMessage s). isWhiteSpace c \<Longrightarrow>
     sendChatMessage now s = \<lparr>after = s, effects = [], thrown = None\<rparr>"
  by (simp add: sendChatMessage_def trim_blank)

theorem C5_blank_chat_message_is_noop_witness:
  "isWhiteSpace 0x20 \<and> isWhiteSpace 0x0A \<and> isWhiteSpace 0x09
   \<and> sendChatMessage (1, js ''10:15'') (initialState\<lparr>currentChatMessage := [0x20, 0x0A, 0x09]\<rparr>)
       = \<lparr>after = initialState\<lparr>currentChatMessage := [0x20, 0x0A, 0x09]\<rparr>,
          effects = [], thrown = None\<rparr>"
proof -
  have blank: "\<forall>c\<in>set (currentChatMessage (initialState\<lparr>currentChatMessage := [0x20, 0x0A, 0x09]\<rparr>)).
      isWhiteSpace c"
    by (simp add: isWhiteSpace_def)
  have each: "isWhiteSpace 0x20 \<and> isWhiteSpace 0x0A \<and> isWhiteSpace 0x09"
    by (simp add: isWhiteSpace_def)
  show ?thesis
    using each C5_blank_chat_message_is_noop [OF blank, of "(1, js ''10:15'')"] by blast
qed

lemma chatMessages_switchTab: "chatMessages (switchTab tabName s) = chatMessages s"
  by (simp add: switchTab_def)

lemma prefix_sendChatMessage:
  "prefix (chatMessages s) (chatMessages (after (sendChatMessage now s)))"
  by (auto simp: sendChatMessage_def Let_def split: prod.splits option.splits
        dest!: addChatMessage_result)

lemma prefix_sendChatMessage_response:
  "prefix (chatMessages s) (chatMessages (after (sendChatMessage_response response now1 now2 s)))"
  by (simp add: sendChatMessage_response_def Let_def addChatMessage_chatMessages
        split: sum.splits option.splits)

lemma prefix_addWelcomeMessage:
  "prefix (chatMessages s) (chatMessages (after (addWelcomeMessage i now s)))"
  by (auto simp: addWelcomeMessage_def split: prod.splits dest!: addChatMessage_result)

lemma prefix_initializeWidget_response:
  "chatMessages (after (initializeWidget_response response s)) = chatMessages s"
  by (simp add: initializeWidget_response_def Let_def split: sum.splits option.splits)

lemma prefix_loadPopularInstructions_response:
  "chatMessages (after (loadPopularInstructions_response response s)) = chatMessages s"
  by (simp add: loadPopularInstructions_response_def Let_def split: sum.splits option.splits)

lemma prefix_searchInstructions:
  "chatMessages (after (searchInstructions query s)) = chatMessages s"
  by (simp add: searchInstructions_def split: option.splits)

lemma prefix_searchInstructions_response:
  "chatMessages (after (searchInstructions_response response s)) = chatMessages s"
  by (simp add: searchInstructions_response_def split: sum.splits option.splits)

lemma prefix_showInstruction_response:
  "prefix (chatMessages s)
     (chatMessages (after (showInstruction_response taskName response now1 now2 s)))"
  by (simp add: showInstruction_response_def Let_def addChatMessage_chatMessages
        chatMessages_switchTab split: sum.splits option.splits)

lemma prefix_loadInstruction:
  "prefix (chatMessages s) (chatMessages (after (loadInstruction instruction now s)))"
  by (auto simp: loadInstruction_def chatMessages_switchTab split: prod.splits
        dest!: addChatMessage_result)

lemma prefix_processVoiceQuery_response:
  "prefix (chatMessages s)
     (chatMessages (after (processVoiceQuery_response t response now1 now2 now3 s)))"
  by (auto simp: processVoiceQuery_response_def Let_def addChatMessage_chatMessages
        chatMessages_switchTab split: sum.splits option.splits prod.splits
        dest!: addChatMessage_result)

lemma prefix_startVoiceInput:
  "chatMessages (after (startVoiceInput answer s)) = chatMessages s"
  by (simp add: startVoiceInput_def split: jsval.splits)

lemma prefix_exportInstruction:
  "chatMessages (after (exportInstruction format instructionId s)) = chatMessages s"
  by (simp add: exportInstruction_def split: option.splits)

lemma prefix_exportInstruction_response:
  "chatMessages (after (exportInstruction_response response s)) = chatMessages s"
  by (simp add: exportInstruction_response_def split: sum.splits)

lemma prefix_step: "prefix (chatMessages s) (chatMessages (after (step ev s)))"
proof (cases ev)
  case (SendMessage message now)
  then show ?thesis
    using prefix_sendChatMessage [of "s\<lparr>currentChatMessage := message\<rparr>" now]
    by (simp add: sendMessage_def)
qed (simp_all add: quiet_def togglePanel_def showPanel_def hidePanel_def toggleMinimize_def
       switchTab_def initializeWidget_def loadPopularInstructions_def showInstruction_def
       Let_def prefix_sendChatMessage prefix_sendChatMessage_response prefix_addWelcomeMessage
       prefix_initializeWidget_response prefix_loadPopularInstructions_response
       prefix_searchInstructions prefix_searchInstructions_response
       prefix_showInstruction_response prefix_loadInstruction
       prefix_processVoiceQuery_response prefix_startVoiceInput prefix_exportInstruction
       prefix_exportInstruction_response)

lemma prefix_runEvents: "prefix (chatMessages s) (chatMessages (runEvents evs s))"
proof (induction evs arbitrary: s)
  case Nil
  show ?case by simp
next
  case (Cons ev evs)
  have "prefix (chatMessages s) (chatMessages (after (step ev s)))"
    by (rule prefix_step)
  also have "prefix \<dots> (chatMessages (runEvents evs (after (step ev s))))"
    by (rule Cons.IH)
  finally show ?case by simp
qed

text \<open>
  C9.  The list of chat messages only grows at its end.  \<open>addChatMessage\<close>, the one place
  that writes to it, appends exactly one new message; every operation of the widget, and
  so every sequence of operations, leaves the messages that were in the list where they
  were, with all their fields, as an initial segment of the new list.
\<close>

theorem C9_chat_messages_append_only:
  "chatMessages (fst (addChatMessage now r c i s))
     = chatMessages s
         @ [\<lparr>msg_id = fst now, role = r, content = c, timestamp = snd now,
              instructionData = (if i = Undefined then Null else i)\<rparr>]
   \<and> prefix (chatMessages s) (chatMessages (after (step ev s)))
   \<and> prefix (chatMessages s) (chatMessages (runEvents evs s))"
  using addChatMessage_chatMessages prefix_step prefix_runEvents by blast

lemma hi_not_blank: "trim (js ''hi'') = js ''hi''"
  by (simp add: trim_def js_def isWhiteSpace_def)

lemma sendChatMessage_hi:
  "sendChatMessage (1, js ''10:15'') (initialState\<lparr>currentChatMessage := js ''hi''\<rparr>)
     = \<lparr>after = initialState
           \<lparr>chatMessages := [\<lparr>msg_id = 1, role = User, content = Str (js ''hi''),
                                timestamp = js ''10:15'', instructionData = Null\<rparr>],
            isWaitingForResponse := True\<rparr>,
        effects = [Fetch (js ''POST'') (js ''/api/chat'') (Obj [(js ''message'', Str (js ''hi''))])],
        thrown = None\<rparr>"
proof -
  have ne: "js ''hi'' \<noteq> []"
    by (simp add: js_def)
  show ?thesis
    using ne
    by (simp add: sendChatMessage_def hi_not_blank addChatMessage_def Let_def initialState_def
          renderChatMessages_def renderMessage_def escapeHtml_def)
qed

theorem C9_chat_messages_append_only_witness:
  "chatMessages (runEvents [ChatInput (js ''hi''), SendChatMessage (1, js ''10:15'')] initialState)
     = [\<lparr>msg_id = 1, role = User, content = Str (js ''hi''),
          timestamp = js ''10:15'', instructionData = Null\<rparr>]
   \<and> prefix [\<lparr>msg_id = 1, role = User, content = Str (js ''hi''),
                timestamp = js ''10:15'', instructionData = Null\<rparr>]
        (chatMessages
          (runEvents [ChatResponse (Inl (Failure (js ''Failed to fetch''))) (2, js ''10:16'') (3, js ''10:16'')]
            (runEvents [ChatInput (js ''hi''), SendChatMessage (1, js ''10:15'')] initialState)))"
proof -
  let ?s = "runEvents [ChatInput (js ''hi''), SendChatMessage (1, js ''10:15'')] initialState"
  have s: "chatMessages ?s
     = [\<lparr>msg_id = 1, role = User, content = Str (js ''hi''),
          timestamp = js ''10:15'', instructionData = Null\<rparr>]"
    using sendChatMessage_hi by (simp add: quiet_def initialState_def)
  show ?thesis
    using s C9_chat_messages_append_only
      [of _ _ _ _ ?s _
          "[ChatResponse (Inl (Failure (js ''Failed to fetch''))) (2, js ''10:16'') (3, js ''10:16'')]"]
    by simp
qed

lemma apology_added:
  "chatMessages (fst (addChatMessage now Assistant (Str t) Undefined s))
     = chatMessages s @ [assistantText now t]"
  by (simp add: addChatMessage_chatMessages assistantText_def)

lemma apology_thrown:
  "snd (addChatMessage now Assistant (Str t) Undefined s)
     = (case renderChatMessages s of Some err \<Rightarrow> Some err | None \<Rightarrow> None)"
  by (simp add: addChatMessage_thrown renderChatMessages_def apology_added renderAll_append
        renderMessage_assistantText split: option.splits)

lemma chat_failure:
  "effects (sendChatMessage_response (Inl err) now1 now2 s) = [ConsoleError ChatError err]
   \<and> chatMessages (after (sendChatMessage_response (Inl err) now1 now2 s))
       = chatMessages s @ [assistantText now2 chatApology]
   \<and> thrown (sendChatMessage_response (Inl err) now1 now2 s) = renderChatMessages s"
  by (simp add: sendChatMessage_response_def Let_def apology_added apology_thrown
        split: option.splits)

lemma instruction_failure:
  "effects (showInstruction_response taskName (Inl err) now1 now2 s)
       = [ConsoleError InstructionError err]
   \<and> chatMessages (after (showInstruction_response taskName (Inl err) now1 now2 s))
       = chatMessages s @ [assistantText now2 instructionApology]
   \<and> thrown (showInstruction_response taskName (Inl err) now1 now2 s) = renderChatMessages s"
  by (simp add: showInstruction_response_def Let_def apology_added apology_thrown
        split: option.splits)

lemma voice_failure:
  "effects (processVoiceQuery_response t (Inl err) now1 now2 now3 s)
       = [ConsoleError VoiceError err]
   \<and> chatMessages (after (processVoiceQuery_response t (Inl err) now1 now2 now3 s))
       = chatMessages s @ [assistantText now3 voiceApology]
   \<and> thrown (processVoiceQuery_response t (Inl err) now1 now2 now3 s) = renderChatMessages s"
  by (simp add: processVoiceQuery_response_def Let_def apology_added apology_thrown
        split: option.splits)

text \<open>
  C8 (as amended).  A failure of a network call is caught and logged in every case.  For
  the chat request, the instruction request and the voice request an apology is
  appended to the chat, and no error leaves the method when the messages already in the
  chat render.  For the initial help request, the popular-instruction request, the
  search and the export, the \<open>catch\<close> logs only: the state, and so the chat, stays as it
  was and nothing is thrown.
\<close>

theorem C8_network_failures_caught_and_logged:
  "initializeWidget_response (Inl err) s
     = \<lparr>after = s, effects = [ConsoleError InitError err], thrown = None\<rparr>
   \<and> loadPopularInstructions_response (Inl err) s
     = \<lparr>after = s, effects = [ConsoleError PopularError err], thrown = None\<rparr>
   \<and> searchInstructions_response (Inl err) s
     = \<lparr>after = s, effects = [ConsoleError SearchError err], thrown = None\<rparr>
   \<and> exportInstruction_response (Inl err) s
     = \<lparr>after = s, effects = [ConsoleError ExportError err], thrown = None\<rparr>
   \<and> effects (sendChatMessage_response (Inl err) now1 now2 s) = [ConsoleError ChatError err]
   \<and> chatMessages (after (sendChatMessage_response (Inl err) now1 now2 s))
       = chatMessages s @ [assistantText now2 chatApology]
   \<and> effects (showInstruction_response taskName (Inl err) now1 now2 s)
       = [ConsoleError InstructionError err]
   \<and> chatMessages (after (showInstruction_response taskName (Inl err) now1 now2 s))
       = chatMessages s @ [assistantText now2 instructionApology]
   \<and> effects (processVoiceQuery_response t (Inl err) now1 now2 now3 s)
       = [ConsoleError VoiceError err]
   \<and> chatMessages (after (processVoiceQuery_response t (Inl err) now1 now2 now3 s))
       = chatMessages s @ [assistantText now3 voiceApology]
   \<and> (renderChatMessages s = None \<longrightarrow>
        thrown (sendChatMessage_response (Inl err) now1 now2 s) = None
        \<and> thrown (showInstruction_response taskName (Inl err) now1 now2 s) = None
        \<and> thrown (processVoiceQuery_response t (Inl err) now1 now2 now3 s) = None)"
proof -
  have quiet_ones:
    "initializeWidget_response (Inl err) s
       = \<lparr>after = s, effects = [ConsoleError InitError err], thrown = None\<rparr>"
    "loadPopularInstructions_response (Inl err) s
       = \<lparr>after = s, effects = [ConsoleError PopularError err], thrown = None\<rparr>"
    "searchInstructions_response (Inl err) s
       = \<lparr>after = s, effects = [ConsoleError SearchError err], thrown = None\<rparr>"
    "exportInstruction_response (Inl err) s
       = \<lparr>after = s, effects = [ConsoleError ExportError err], thrown = None\<rparr>"
    by (simp_all add: initializeWidget_response_def loadPopularInstructions_response_def
          searchInstructions_response_def exportInstruction_response_def)
  show ?thesis
    using quiet_ones chat_failure [of err now1 now2 s]
      instruction_failure [of taskName err now1 now2 s]
      voice_failure [of t err now1 now2 now3 s]
    by simp
qed

theorem C8_network_failures_caught_and_logged_witness:
  "renderChatMessages initialState = None
   \<and> effects (sendChatMessage_response (Inl (Failure (js ''Failed to fetch'')))
                (2, js ''10:16'') (3, js ''10:16'') initialState)
       = [ConsoleError ChatError (Failure (js ''Failed to fetch''))]
   \<and> chatMessages (after (sendChatMessage_response (Inl (Failure (js ''Failed to fetch'')))
                (2, js ''10:16'') (3, js ''10:16'') initialState))
       = [assistantText (3, js ''10:16'') chatApology]
   \<and> thrown (sendChatMessage_response (Inl (Failure (js ''Failed to fetch'')))
                (2, js ''10:16'') (3, js ''10:16'') initialState) = None"
proof -
  have r: "renderChatMessages initialState = None"
    by (simp add: renderChatMessages_def initialState_def)
  have c: "chatMessages initialState = []"
    by (simp add: initialState_def)
  show ?thesis
    using r c C8_network_failures_caught_and_logged
      [of "Failure (js ''Failed to fetch'')" initialState "(2, js ''10:16'')" "(3, js ''10:16'')"]
    by simp
qed

text \<open>
  C8 as stated fails in two ways.  A failed search is logged and leaves the chat empty:
  no apology is appended.  And after a chat reply without a \<open>message\<close> (the body \<open>{}\<close>)
  the chat holds a message that cannot be rendered, so that when the next instruction
  request fails, the \<open>addChatMessage\<close> in the \<open>catch\<close> throws and the TypeError leaves
  \<open>showInstruction\<close>.
\<close>

theorem C8_network_failures_counterexample:
  "chatMessages (after (searchInstructions_response (Inl (Failure (js ''Failed to fetch'')))
                   initialState)) = []
   \<and> effects (searchInstructions_response (Inl (Failure (js ''Failed to fetch''))) initialState)
       = [ConsoleError SearchError (Failure (js ''Failed to fetch''))]
   \<and> thrown (showInstruction_response (js ''Checkout'') (Inl (Failure (js ''Failed to fetch'')))
               (4, js ''10:17'') (5, js ''10:17'')
               (runEvents [ChatInput (js ''hi''), SendChatMessage (1, js ''10:15''),
                           ChatResponse (Inr (Obj [])) (2, js ''10:16'') (3, js ''10:16'')]
                  initialState))
       = Some TypeError"
proof -
  let ?s = "runEvents [ChatInput (js ''hi''), SendChatMessage (1, js ''10:15''),
                       ChatResponse (Inr (Obj [])) (2, js ''10:16'') (3, js ''10:16'')]
              initialState"
  have "renderChatMessages ?s = Some TypeError"
    using sendChatMessage_hi
    by (simp add: quiet_def initialState_def sendChatMessage_response_def Let_def
          addChatMessage_def renderChatMessages_def renderMessage_def escapeHtml_def)
  then have "thrown (showInstruction_response (js ''Checkout'')
               (Inl (Failure (js ''Failed to fetch''))) (4, js ''10:17'') (5, js ''10:17'') ?s)
             = Some TypeError"
    using instruction_failure by simp
  then show ?thesis
    by (simp add: searchInstructions_response_def initialState_def)
qed

lemma waiting_sendChatMessage:
  "isWaitingForResponse (after (sendChatMessage now s))
     = (isWaitingForResponse s \<or> filter isChatFetch (effects (sendChatMessage now s)) \<noteq> [])
   \<and> length (filter isChatFetch (effects (sendChatMessage now s))) \<le> 1
   \<and> (isWaitingForResponse s \<longrightarrow> sendChatMessage now s = \<lparr>after = s, effects = [], thrown = None\<rparr>)"
  by (auto simp: sendChatMessage_def Let_def split: prod.splits option.splits
        dest!: addChatMessage_result)

lemma waiting_sendChatMessage_response:
  "\<not> isWaitingForResponse (after (sendChatMessage_response response now1 now2 s))
   \<and> filter isChatFetch (effects (sendChatMessage_response response now1 now2 s)) = []"
  by (simp add: sendChatMessage_response_def Let_def split: sum.splits option.splits)

lemma waiting_addWelcomeMessage:
  "isWaitingForResponse (after (addWelcomeMessage i now s)) = isWaitingForResponse s
   \<and> effects (addWelcomeMessage i now s) = []"
  by (auto simp: addWelcomeMessage_def split: prod.splits dest!: addChatMessage_result)

lemma waiting_initializeWidget_response:
  "isWaitingForResponse (after (initializeWidget_response response s)) = isWaitingForResponse s
   \<and> filter isChatFetch (effects (initializeWidget_response response s)) = []"
  by (simp add: initializeWidget_response_def Let_def split: sum.splits option.splits)

lemma waiting_loadPopularInstructions_response:
  "isWaitingForResponse (after (loadPopularInstructions_response response s))
     = isWaitingForResponse s
   \<and> filter isChatFetch (effects (loadPopularInstructions_response response s)) = []"
  by (simp add: loadPopularInstructions_response_def Let_def split: sum.splits option.splits)

lemma waiting_searchInstructions:
  "isWaitingForResponse (after (searchInstructions query s)) = isWaitingForResponse s
   \<and> filter isChatFetch (effects (searchInstructions query s)) = []"
  by (simp add: searchInstructions_def js_def split: option.splits)

lemma waiting_searchInstructions_response:
  "isWaitingForResponse (after (searchInstructions_response response s)) = isWaitingForResponse s
   \<and> filter isChatFetch (effects (searchInstructions_response response s)) = []"
  by (simp add: searchInstructions_response_def split: sum.splits option.splits)

lemma waiting_showInstruction_response:
  "isWaitingForResponse (after (showInstruction_response taskName response now1 now2 s))
     = isWaitingForResponse s
   \<and> filter isChatFetch (effects (showInstruction_response taskName response now1 now2 s)) = []"
  by (simp add: showInstruction_response_def Let_def addChatMessage_waiting switchTab_def
        split: sum.splits option.splits)

lemma waiting_loadInstruction:
  "isWaitingForResponse (after (loadInstruction instruction now s)) = isWaitingForResponse s
   \<and> effects (loadInstruction instruction now s) = []"
  by (auto simp: loadInstruction_def switchTab_def split: prod.splits
        dest!: addChatMessage_result)

lemma waiting_processVoiceQuery_response:
  "isWaitingForResponse (after (processVoiceQuery_response t response now1 now2 now3 s))
     = isWaitingForResponse s
   \<and> filter isChatFetch (effects (processVoiceQuery_response t response now1 now2 now3 s)) = []"
  by (auto simp: processVoiceQuery_response_def Let_def addChatMessage_waiting switchTab_def
        split: sum.splits option.splits prod.splits dest!: addChatMessage_result)

lemma waiting_startVoiceInput:
  "isWaitingForResponse (after (startVoiceInput answer s)) = isWaitingForResponse s
   \<and> filter isChatFetch (effects (startVoiceInput answer s)) = []"
  by (simp add: startVoiceInput_def processVoiceQuery_def js_def split: jsval.splits)

lemma waiting_exportInstruction:
  "isWaitingForResponse (after (exportInstruction format instructionId s)) = isWaitingForResponse s
   \<and> filter isChatFetch (effects (exportInstruction format instructionId s)) = []"
  by (simp add: exportInstruction_def js_def split: option.splits)

lemma waiting_exportInstruction_response:
  "isWaitingForResponse (after (exportInstruction_response response s)) = isWaitingForResponse s
   \<and> filter isChatFetch (effects (exportInstruction_response response s)) = []"
  by (simp add: exportInstruction_response_def split: sum.splits)

lemma waiting_step:
  "(isChatResponse ev \<longrightarrow> \<not> isWaitingForResponse (after (step ev s)))
   \<and> (\<not> isChatResponse ev \<longrightarrow>
        isWaitingForResponse (after (step ev s))
          = (isWaitingForResponse s \<or> filter isChatFetch (effects (step ev s)) \<noteq> []))
   \<and> length (filter isChatFetch (effects (step ev s))) \<le> 1
   \<and> (isWaitingForResponse s \<or> isChatResponse ev \<longrightarrow>
        filter isChatFetch (effects (step ev s)) = [])"
proof (cases ev)
  case (SendChatMessage now)
  then show ?thesis using waiting_sendChatMessage [of now s] by auto
next
  case (SendMessage message now)
  then show ?thesis
    using waiting_sendChatMessage [of now "s\<lparr>currentChatMessage := message\<rparr>"]
    by (auto simp: sendMessage_def)
next
  case (ChatResponse response now1 now2)
  then show ?thesis using waiting_sendChatMessage_response [of response now1 now2 s] by simp
qed (simp_all add: quiet_def togglePanel_def showPanel_def hidePanel_def toggleMinimize_def
       switchTab_def initializeWidget_def loadPopularInstructions_def showInstruction_def
       Let_def js_def waiting_addWelcomeMessage waiting_initializeWidget_response
       waiting_loadPopularInstructions_response waiting_searchInstructions
       waiting_searchInstructions_response waiting_showInstruction_response
       waiting_loadInstruction waiting_processVoiceQuery_response waiting_startVoiceInput
       waiting_exportInstruction waiting_exportInstruction_response)

lemma runTracked_pending:
  "runTracked evs (s, pending) = Some (s', pending') \<Longrightarrow>
   pending = (if isWaitingForResponse s then 1 else 0) \<Longrightarrow>
     pending' = (if isWaitingForResponse s' then 1 else 0)"
proof (induction evs arbitrary: s pending)
  case Nil
  then show ?case by auto
next
  case (Cons ev evs)
  let ?n = "pending + length (filter isChatFetch (effects (step ev s)))
              - (if isChatResponse ev then 1 else 0)"
  have enabled: "\<not> (isChatResponse ev \<and> pending = 0)"
    using Cons.prems(1) by (auto split: if_splits)
  then have rest: "runTracked evs (after (step ev s), ?n) = Some (s', pending')"
    using Cons.prems(1) by (auto split: if_splits)
  have inv: "?n = (if isWaitingForResponse (after (step ev s)) then 1 else 0)"
  proof (cases "isChatResponse ev")
    case True
    with enabled Cons.prems(2) have "pending = 1" by (simp split: if_splits)
    with True show ?thesis using waiting_step [of ev s] by simp
  next
    case False
    note nonresp = this
    show ?thesis
    proof (cases "isWaitingForResponse s")
      case True
      then show ?thesis using nonresp Cons.prems(2) waiting_step [of ev s] by simp
    next
      case False
      then have "pending = 0" using Cons.prems(2) by simp
      moreover have "length (filter isChatFetch (effects (step ev s)))
                       = (if isWaitingForResponse (after (step ev s)) then 1 else 0)"
        using False nonresp waiting_step [of ev s]
        by (cases "filter isChatFetch (effects (step ev s))") auto
      ultimately show ?thesis using nonresp by simp
    qed
  qed
  show ?case
    by (rule Cons.IH [OF rest inv])
qed

text \<open>
  C6.  While \<open>isWaitingForResponse\<close> is set, a further \<open>sendChatMessage\<close> (from the
  button, the Enter key or the public \<open>sendMessage\<close>) appends no message and sends no
  request; no operation other than the continuation of the pending chat request clears
  the flag; and that continuation clears it whether the request succeeded or failed.
  After every sequence of events from the initial state the flag is set exactly when one
  chat request is outstanding, and there is never more than one.
\<close>

theorem C6_send_rejected_while_waiting:
  "(isWaitingForResponse s \<longrightarrow>
      sendChatMessage now s = \<lparr>after = s, effects = [], thrown = None\<rparr>
      \<and> chatMessages (after (sendMessage message now s)) = chatMessages s
      \<and> effects (sendMessage message now s) = []
      \<and> (\<forall>ev. \<not> isChatResponse ev \<longrightarrow> isWaitingForResponse (after (step ev s))))
   \<and> \<not> isWaitingForResponse (after (sendChatMessage_response response now1 now2 s))
   \<and> (runTracked evs (initialState, 0) = Some (s, pending) \<longrightarrow>
        pending = (if isWaitingForResponse s then 1 else 0))"
proof -
  have rejected: "sendChatMessage now s = \<lparr>after = s, effects = [], thrown = None\<rparr>"
    if "isWaitingForResponse s"
    using that by (simp add: sendChatMessage_def)
  have public: "chatMessages (after (sendMessage message now s)) = chatMessages s
                \<and> effects (sendMessage message now s) = []"
    if "isWaitingForResponse s"
    using that by (simp add: sendMessage_def sendChatMessage_def)
  have stays: "isWaitingForResponse (after (step ev s))"
    if "isWaitingForResponse s" "\<not> isChatResponse ev" for ev
    using that waiting_step [of ev s] by simp
  have resets: "\<not> isWaitingForResponse (after (sendChatMessage_response response now1 now2 s))"
    using waiting_sendChatMessage_response by simp
  have counted: "pending = (if isWaitingForResponse s then 1 else 0)"
    if "runTracked evs (initialState, 0) = Some (s, pending)"
    by (rule runTracked_pending [OF that]) (simp add: initialState_def)
  show ?thesis
    using rejected public stays resets counted by blast
qed

theorem C6_send_rejected_while_waiting_witness:
  "runTracked [ChatInput (js ''hi''), SendChatMessage (1, js ''10:15'')] (initialState, 0)
     = Some (runEvents [ChatInput (js ''hi''), SendChatMessage (1, js ''10:15'')] initialState, 1)
   \<and> isWaitingForResponse
        (runEvents [ChatInput (js ''hi''), SendChatMessage (1, js ''10:15'')] initialState)
   \<and> sendChatMessage (2, js ''10:16'')
        (runEvents [ChatInput (js ''hi''), SendChatMessage (1, js ''10:15'')] initialState)
       = \<lparr>after = runEvents [ChatInput (js ''hi''), SendChatMessage (1, js ''10:15'')] initialState,
          effects = [], thrown = None\<rparr>
   \<and> \<not> isWaitingForResponse
         (after (sendChatMessage_response (Inl (Failure (js ''Failed to fetch'')))
                   (3, js ''10:17'') (4, js ''10:17'')
                   (runEvents [ChatInput (js ''hi''), SendChatMessage (1, js ''10:15'')] initialState)))"
proof -
  let ?evs = "[ChatInput (js ''hi''), SendChatMessage (1, js ''10:15'')]"
  let ?s = "runEvents ?evs initialState"
  have t: "runTracked ?evs (initialState, 0) = Some (?s, 1)"
    using sendChatMessage_hi by (simp add: quiet_def)
  have w: "isWaitingForResponse ?s"
    using sendChatMessage_hi by (simp add: quiet_def)
  show ?thesis
    using t w
      C6_send_rejected_while_waiting
        [of ?s "(2, js ''10:16'')" _ "Inl (Failure (js ''Failed to fetch''))"
            "(3, js ''10:17'')" "(4, js ''10:17'')" ?evs 1]
    by blast
qed

end
